theory Spec2Isabelle
  imports Main "HOL-Library.Word" "HOL-Library.Monad_Syntax"
begin

section \<open>Bytes and the DataView writers\<close>

text \<open>
  A \<^verbatim>\<open>Uint8Array\<close> or \<^verbatim>\<open>ArrayBuffer\<close> is a list of 8-bit words. The
  \<^verbatim>\<open>DataView\<close> setters convert their numeric argument to an unsigned integer of the
  field's width (so the value wraps modulo \<open>2 ^ 32\<close> or \<open>2 ^ 16\<close>) and raise
  \<^verbatim>\<open>RangeError\<close> when the field does not fit in the buffer: \<open>None\<close> here.
\<close>

type_synonym byte = "8 word"

definition write_at :: "nat \<Rightarrow> byte list \<Rightarrow> byte list \<Rightarrow> byte list option" where
  "write_at byteOffset bs buf =
     (if byteOffset + length bs \<le> length buf
      then Some (take byteOffset buf @ bs @ drop (byteOffset + length bs) buf)
      else None)"

definition be32 :: "32 word \<Rightarrow> byte list" where
  "be32 w = [ucast (drop_bit 24 w), ucast (drop_bit 16 w), ucast (drop_bit 8 w), ucast w]"

definition be16 :: "16 word \<Rightarrow> byte list" where
  "be16 w = [ucast (drop_bit 8 w), ucast w]"

definition setUint32 :: "nat \<Rightarrow> nat \<Rightarrow> bool \<Rightarrow> byte list \<Rightarrow> byte list option" where
  "setUint32 byteOffset v littleEndian buf =
     write_at byteOffset (if littleEndian then rev (be32 (of_nat v)) else be32 (of_nat v)) buf"

definition setUint16 :: "nat \<Rightarrow> nat \<Rightarrow> bool \<Rightarrow> byte list \<Rightarrow> byte list option" where
  "setUint16 byteOffset v littleEndian buf =
     write_at byteOffset (if littleEndian then rev (be16 (of_nat v)) else be16 (of_nat v)) buf"

text \<open>
  Reading a header back: \<^verbatim>\<open>getUint32\<close> and \<^verbatim>\<open>getUint16\<close> of a \<^verbatim>\<open>DataView\<close>,
  used only to state what the written header says.
\<close>

definition unsigned_be :: "byte list \<Rightarrow> nat" where
  "unsigned_be bs = foldl (\<lambda>acc b. acc * 256 + unat b) 0 bs"

definition getUint :: "nat \<Rightarrow> nat \<Rightarrow> bool \<Rightarrow> byte list \<Rightarrow> nat option" where
  "getUint width byteOffset littleEndian buf =
     (if byteOffset + width \<le> length buf
      then Some (let bs = take width (drop byteOffset buf)
                 in unsigned_be (if littleEndian then rev bs else bs))
      else None)"

definition getUint32 :: "nat \<Rightarrow> bool \<Rightarrow> byte list \<Rightarrow> nat option" where
  "getUint32 = getUint 4"

definition getUint16 :: "nat \<Rightarrow> bool \<Rightarrow> byte list \<Rightarrow> nat option" where
  "getUint16 = getUint 2"

definition ascii :: "string \<Rightarrow> byte list" where
  "ascii s = map (\<lambda>c. of_nat (of_char c)) s"

section \<open>The audio container\<close>

text \<open>
  The header that \<^verbatim>\<open>generateAudio\<close> builds for \<^verbatim>\<open>bytes.length = len\<close>: an
  \<^verbatim>\<open>ArrayBuffer(44)\<close> (zero-filled) and thirteen writes through a \<^verbatim>\<open>DataView\<close>,
  in the order of the source. \<^verbatim>\<open>bitsPerSample / 8\<close> is the exact quotient 2.
\<close>

definition wavHeader :: "nat \<Rightarrow> byte list option" where
  "wavHeader len = do {
     let sampleRate = 24000;
     let numChannels = 1;
     let bitsPerSample = 16;
     let header = replicate 44 (0 :: byte);
     view \<leftarrow> setUint32 0 0x52494646 False header;
     view \<leftarrow> setUint32 4 (36 + len) True view;
     view \<leftarrow> setUint32 8 0x57415645 False view;
     view \<leftarrow> setUint32 12 0x666d7420 False view;
     view \<leftarrow> setUint32 16 16 True view;
     view \<leftarrow> setUint16 20 1 True view;
     view \<leftarrow> setUint16 22 numChannels True view;
     view \<leftarrow> setUint32 24 sampleRate True view;
     view \<leftarrow> setUint32 28 (sampleRate * numChannels * (bitsPerSample div 8)) True view;
     view \<leftarrow> setUint16 32 (numChannels * (bitsPerSample div 8)) True view;
     view \<leftarrow> setUint16 34 bitsPerSample True view;
     view \<leftarrow> setUint32 36 0x64617461 False view;
     view \<leftarrow> setUint32 40 len True view;
     Some view
   }"

text \<open>\<^verbatim>\<open>new Blob([header, bytes])\<close>: the header followed by the PCM bytes.\<close>

definition wavBlob :: "byte list \<Rightarrow> byte list option" where
  "wavBlob bytes = map_option (\<lambda>header. header @ bytes) (wavHeader (length bytes))"

section \<open>JavaScript values and errors\<close>

text \<open>
  A value produced by \<^verbatim>\<open>JSON.parse\<close>. Strings are lists of 8-bit characters, so the model
  covers texts whose code units are below 256. A number is kept as its canonical rendering
  \<^verbatim>\<open>String(n)\<close>, which determines it (up to the sign of zero, which no operation here
  observes); an object is the list of its properties, each key once. \<open>None\<close> of type
  \<open>json option\<close> stands for \<^verbatim>\<open>undefined\<close> where a property is read, and for
  \<^verbatim>\<open>null\<close> where state of type \<^verbatim>\<open>Script | null\<close> is held.
\<close>

datatype json =
    JNull
  | JBool bool
  | JNum string
  | JStr string
  | JArr "json list"
  | JObj "(string \<times> json) list"

fun truthy :: "json \<Rightarrow> bool" where
  "truthy JNull = False"
| "truthy (JBool b) = b"
| "truthy (JNum n) = (n \<noteq> ''0'')"
| "truthy (JStr s) = (s \<noteq> [])"
| "truthy (JArr xs) = True"
| "truthy (JObj kvs) = True"

text \<open>Reading a property of a non-null value: \<^verbatim>\<open>v.key\<close>.\<close>

fun property :: "json \<Rightarrow> string \<Rightarrow> json option" where
  "property (JObj kvs) key = map_of kvs key"
| "property v key = None"

text \<open>\<^verbatim>\<open>String(v)\<close>, the conversion a template literal applies.\<close>

fun js_string :: "json \<Rightarrow> string"
  and js_join :: "json list \<Rightarrow> string" where
  "js_string JNull = ''null''"
| "js_string (JBool b) = (if b then ''true'' else ''false'')"
| "js_string (JNum n) = n"
| "js_string (JStr s) = s"
| "js_string (JArr xs) = js_join xs"
| "js_string (JObj kvs) = ''[object Object]''"
| "js_join [] = []"
| "js_join (x # xs) =
     (if x = JNull then [] else js_string x) @ (if xs = [] then [] else '','' @ js_join xs)"

definition String_js :: "json option \<Rightarrow> string" where
  "String_js v = (case v of None \<Rightarrow> ''undefined'' | Some x \<Rightarrow> js_string x)"

text \<open>
  A thrown value: the errors raised here and by the SDK are \<^verbatim>\<open>Error\<close> objects, of which
  the code reads only \<^verbatim>\<open>message\<close>.
\<close>

datatype js_error = JsError (name: string) (message: string)

section \<open>A reference parser for plain JSON texts\<close>

text \<open>
  \<^verbatim>\<open>JSON.parse\<close> is a parameter of the functions below. For running them on concrete
  payloads this parser implements it on the texts built from objects, arrays, strings
  without escapes and the literals \<^verbatim>\<open>true\<close>, \<^verbatim>\<open>false\<close>, \<^verbatim>\<open>null\<close>; it is applied
  to such texts only. The fuel bounds the nesting and is the length of the text.
\<close>

definition is_ws :: "char \<Rightarrow> bool" where
  "is_ws c = (c \<in> set [CHR '' '', CHR 0x09, CHR 0x0A, CHR 0x0D])"

definition skip_ws :: "string \<Rightarrow> string" where
  "skip_ws = dropWhile is_ws"

fun scan_string :: "string \<Rightarrow> (string \<times> string) option" where
  "scan_string [] = None"
| "scan_string (c # cs) =
     (if c = CHR 0x22 then Some ([], cs)
      else if c = CHR 0x5C \<or> (of_char c :: nat) < 32 then None
      else map_option (\<lambda>(s, r). (c # s, r)) (scan_string cs))"

fun put_property :: "string \<Rightarrow> json \<Rightarrow> (string \<times> json) list \<Rightarrow> (string \<times> json) list" where
  "put_property k v [] = [(k, v)]"
| "put_property k v (p # ps) = (if fst p = k then (k, v) # ps else p # put_property k v ps)"

definition literal :: "string \<Rightarrow> string \<Rightarrow> string option" where
  "literal w s = (if take (length w) s = w then Some (drop (length w) s) else None)"

fun parse_value :: "nat \<Rightarrow> string \<Rightarrow> (json \<times> string) option"
  and parse_elements :: "nat \<Rightarrow> json list \<Rightarrow> string \<Rightarrow> (json \<times> string) option"
  and parse_members :: "nat \<Rightarrow> (string \<times> json) list \<Rightarrow> string \<Rightarrow> (json \<times> string) option" where
  "parse_value 0 s = None"
| "parse_value (Suc n) s =
     (case skip_ws s of
        [] \<Rightarrow> None
      | c # r \<Rightarrow>
          if c = CHR ''{'' then
            (case skip_ws r of
               [] \<Rightarrow> None
             | d # r' \<Rightarrow> if d = CHR ''}'' then Some (JObj [], r') else parse_members n [] r)
          else if c = CHR ''['' then
            (case skip_ws r of
               [] \<Rightarrow> None
             | d # r' \<Rightarrow> if d = CHR '']'' then Some (JArr [], r') else parse_elements n [] r)
          else if c = CHR 0x22 then map_option (\<lambda>(t, r'). (JStr t, r')) (scan_string r)
          else (case literal ''true'' (c # r) of Some r' \<Rightarrow> Some (JBool True, r')
            | None \<Rightarrow> (case literal ''false'' (c # r) of Some r' \<Rightarrow> Some (JBool False, r')
            | None \<Rightarrow> (case literal ''null'' (c # r) of Some r' \<Rightarrow> Some (JNull, r')
            | None \<Rightarrow> None))))"
| "parse_elements 0 acc s = None"
| "parse_elements (Suc n) acc s =
     (case parse_value n s of
        None \<Rightarrow> None
      | Some (v, r) \<Rightarrow>
          (case skip_ws r of
             [] \<Rightarrow> None
           | c # r' \<Rightarrow>
               if c = CHR '']'' then Some (JArr (acc @ [v]), r')
               else if c = CHR '','' then parse_elements n (acc @ [v]) r'
               else None))"
| "parse_members 0 acc s = None"
| "parse_members (Suc n) acc s =
     (case skip_ws s of
        [] \<Rightarrow> None
      | q # r \<Rightarrow>
          if q \<noteq> CHR 0x22 then None
          else (case scan_string r of
             None \<Rightarrow> None
           | Some (k, r1) \<Rightarrow>
               (case skip_ws r1 of
                  [] \<Rightarrow> None
                | c # r2 \<Rightarrow>
                    if c \<noteq> CHR '':'' then None
                    else (case parse_value n r2 of
                       None \<Rightarrow> None
                     | Some (v, r3) \<Rightarrow>
                         (case skip_ws r3 of
                            [] \<Rightarrow> None
                          | e # r4 \<Rightarrow>
                              if e = CHR ''}'' then Some (JObj (put_property k v acc), r4)
                              else if e = CHR '','' then parse_members n (put_property k v acc) r4
                              else None)))))"

definition SyntaxError :: js_error where
  "SyntaxError = JsError ''SyntaxError'' ''Unexpected token in JSON''"

definition JSON_parse_plain :: "string \<Rightarrow> js_error + json" where
  "JSON_parse_plain t =
     (case parse_value (Suc (length t)) t of
        None \<Rightarrow> Inl SyntaxError
      | Some (v, r) \<Rightarrow> if skip_ws r = [] then Inr v else Inl SyntaxError)"

section \<open>The browser and the backend\<close>

datatype language = English | Hindi

fun language_name :: "language \<Rightarrow> string" where
  "language_name English = ''English''"
| "language_name Hindi = ''Hindi''"

text \<open>The four values of \<^verbatim>\<open>step\<close>; \<^verbatim>\<open>'upload'\<close> is declared and never assigned.\<close>

datatype step = step_search | step_script | step_preview | step_upload

text \<open>
  An artifact reference: an object URL made by \<^verbatim>\<open>URL.createObjectURL\<close> (numbered in the
  order of creation) or a \<^verbatim>\<open>data:\<close> URL given in full.
\<close>

datatype url = blob_url nat | data_url string

text \<open>
  The item \<^verbatim>\<open>shorts_ai_state\<close> of \<^verbatim>\<open>localStorage\<close> is held as the value whose JSON text
  the persistence effect writes: four fields, the script \<^verbatim>\<open>null\<close> or an object of
  three strings. \<open>Malformed\<close> is any text on which the restore effect throws
  (\<^verbatim>\<open>JSON.parse\<close> rejects it, or it is the text \<^verbatim>\<open>null\<close>); the component writes
  none.
\<close>

record snapshot =
  saved_query :: string
  saved_step :: step
  saved_productInfo :: string
  saved_script :: "json option"

datatype stored = Malformed | Saved snapshot

text \<open>
  What a call of \<^verbatim>\<open>ai.models.generateContent\<close> sends, and what comes back. The
  configuration is one of the four the source uses.
\<close>

datatype config =
    Tools_googleSearch
  | ResponseSchema "string list" "string list"
  | SpeechConfig string
  | ImageConfig string

record request =
  model :: string
  contents :: string
  config :: config

datatype inline_data = InlineData (data: "string option")
datatype part = Part (inlineData: "inline_data option")
datatype content = Content (parts: "part list option")
datatype candidate = Candidate (content: "content option")

record response =
  response_text :: "string option"
  candidates :: "candidate list option"

text \<open>
  The process-wide and browser-wide state the code reads and writes: the credential
  \<^verbatim>\<open>process.env.GEMINI_API_KEY\<close>, the requests sent to the backend so far (oldest first),
  the live object URLs with their blobs, the number of object URLs created, and the two
  \<^verbatim>\<open>localStorage\<close> items.
\<close>

record world =
  GEMINI_API_KEY :: "string option"
  requests :: "request list"
  objectURLs :: "(nat \<times> byte list) list"
  created :: nat
  shorts_ai_state :: "stored option"
  isYoutubeConnected_item :: "string option"

text \<open>The backend is opaque: for a credential and a request, a response or a rejection.\<close>

type_synonym backend = "string \<Rightarrow> request \<Rightarrow> js_error + response"

definition generateContent ::
  "backend \<Rightarrow> string \<Rightarrow> request \<Rightarrow> world \<Rightarrow> (js_error + response) \<times> world" where
  "generateContent backend ai req w = (backend ai req, w\<lparr>requests := requests w @ [req]\<rparr>)"

definition createObjectURL :: "byte list \<Rightarrow> world \<Rightarrow> url \<times> world" where
  "createObjectURL blob w =
     (blob_url (created w),
      w\<lparr>objectURLs := objectURLs w @ [(created w, blob)], created := Suc (created w)\<rparr>)"

definition revokeObjectURL :: "url \<Rightarrow> world \<Rightarrow> world" where
  "revokeObjectURL u w =
     (case u of
        blob_url n \<Rightarrow> w\<lparr>objectURLs := filter (\<lambda>(k, b). k \<noteq> n) (objectURLs w)\<rparr>
      | data_url d \<Rightarrow> w)"

subsection \<open>\<^verbatim>\<open>window.atob\<close>\<close>

text \<open>
  Forgiving base64 decoding: ASCII whitespace is dropped, one or two trailing \<^verbatim>\<open>=\<close> are
  dropped when the length is a multiple of four, a length of \<open>1\<close> modulo \<open>4\<close> or a
  character outside the alphabet raises \<^verbatim>\<open>InvalidCharacterError\<close>, and the bits left
  over at the end are discarded. The result is a string of code units below 256.
\<close>

definition b64_alphabet :: string where
  "b64_alphabet = ''ABCDEFGHIJKLMNOPQRSTUVWXYZabcdefghijklmnopqrstuvwxyz0123456789+/''"

fun index_of :: "'a \<Rightarrow> 'a list \<Rightarrow> nat option" where
  "index_of x [] = None"
| "index_of x (y # ys) = (if x = y then Some 0 else map_option Suc (index_of x ys))"

fun sextets :: "string \<Rightarrow> nat list option" where
  "sextets [] = Some []"
| "sextets (c # cs) =
     (case index_of c b64_alphabet of
        None \<Rightarrow> None
      | Some v \<Rightarrow> map_option ((#) v) (sextets cs))"

fun b64_bytes :: "nat list \<Rightarrow> nat list" where
  "b64_bytes (a # b # c # d # r) =
     [a * 4 + b div 16, (b mod 16) * 16 + c div 4, (c mod 4) * 64 + d] @ b64_bytes r"
| "b64_bytes [a, b, c] = [a * 4 + b div 16, (b mod 16) * 16 + c div 4]"
| "b64_bytes [a, b] = [a * 4 + b div 16]"
| "b64_bytes r = []"

definition strip_padding :: "string \<Rightarrow> string" where
  "strip_padding s =
     (if length s mod 4 = 0 \<and> s \<noteq> [] \<and> last s = CHR ''=''
      then (if butlast s \<noteq> [] \<and> last (butlast s) = CHR ''='' then butlast (butlast s)
            else butlast s)
      else s)"

definition InvalidCharacterError :: js_error where
  "InvalidCharacterError =
     JsError ''InvalidCharacterError'' ''The string to be decoded is not correctly encoded.''"

definition atob :: "string \<Rightarrow> js_error + string" where
  "atob s =
     (let t = strip_padding
                (filter (\<lambda>c. c \<notin> set [CHR 0x09, CHR 0x0A, CHR 0x0C, CHR 0x0D, CHR 0x20]) s)
      in if length t mod 4 = 1 then Inl InvalidCharacterError
         else (case sextets t of
                 None \<Rightarrow> Inl InvalidCharacterError
               | Some vs \<Rightarrow> Inr (map char_of (b64_bytes vs))))"

text \<open>The characters that \<^verbatim>\<open>/\s/\<close> matches, among code units below 256.\<close>

definition is_space :: "char \<Rightarrow> bool" where
  "is_space c =
     (c \<in> set [CHR 0x09, CHR 0x0A, CHR 0x0B, CHR 0x0C, CHR 0x0D, CHR 0x20, CHR 0xA0])"

section \<open>The generation client\<close>

definition missing_key :: js_error where
  "missing_key = JsError ''Error''
     ''Gemini API Key is missing. Please set GEMINI_API_KEY in your Render.com environment variables.''"

text \<open>\<^verbatim>\<open>getAI\<close>: the credential is read on every call; absent or empty, the call throws.\<close>

definition getAI :: "world \<Rightarrow> js_error + string" where
  "getAI w =
     (case GEMINI_API_KEY w of
        None \<Rightarrow> Inl missing_key
      | Some apiKey \<Rightarrow> if apiKey = [] then Inl missing_key else Inr apiKey)"

definition searchRequest :: "string \<Rightarrow> request" where
  "searchRequest query =
     \<lparr>model = ''gemini-3-flash-preview'',
      contents = ''Find detailed information about this product: '' @ query
        @ ''. Include key features, pros, cons, and pricing if available.'',
      config = Tools_googleSearch\<rparr>"

definition searchProduct ::
  "backend \<Rightarrow> string \<Rightarrow> world \<Rightarrow> (js_error + string option) \<times> world" where
  "searchProduct backend query w =
     (case getAI w of
        Inl e \<Rightarrow> (Inl e, w)
      | Inr ai \<Rightarrow>
          (case generateContent backend ai (searchRequest query) w of
             (Inl e, w') \<Rightarrow> (Inl e, w')
           | (Inr response, w') \<Rightarrow> (Inr (response_text response), w')))"

text \<open>
  \<^verbatim>\<open>generateScript\<close> returns whatever \<^verbatim>\<open>JSON.parse(response.text)\<close> returns; an absent
  text is parsed as the string \<^verbatim>\<open>undefined\<close>.
\<close>

definition scriptRequest :: "string \<Rightarrow> language \<Rightarrow> request" where
  "scriptRequest productInfo language =
     \<lparr>model = ''gemini-3-flash-preview'',
      contents =
        ''Create a high-energy 60-second YouTube Shorts script for this product: ''
        @ productInfo @ ''. '' @ [CHR 0x0A]
        @ ''    The script should be engaging, highlight the best features, and have a clear call to action.''
        @ [CHR 0x0A]
        @ ''    The script MUST be written in '' @ language_name language @ ''.''
        @ [CHR 0x0A]
        @ ''    Format as JSON with \"hook\", \"body\", and \"cta\" fields.'',
      config = ResponseSchema [''hook'', ''body'', ''cta''] [''hook'', ''body'', ''cta'']\<rparr>"

definition generateScript ::
  "(string \<Rightarrow> js_error + json) \<Rightarrow> backend \<Rightarrow> string \<Rightarrow> language \<Rightarrow> world
     \<Rightarrow> (js_error + json) \<times> world" where
  "generateScript JSON_parse backend productInfo language w =
     (case getAI w of
        Inl e \<Rightarrow> (Inl e, w)
      | Inr ai \<Rightarrow>
          (case generateContent backend ai (scriptRequest productInfo language) w of
             (Inl e, w') \<Rightarrow> (Inl e, w')
           | (Inr response, w') \<Rightarrow>
               (JSON_parse (case response_text response of None \<Rightarrow> ''undefined'' | Some t \<Rightarrow> t),
                w')))"

text \<open>\<^verbatim>\<open>response.candidates?.[0]?.content?.parts?.[0]?.inlineData\<close>\<close>

definition first_inlineData :: "response \<Rightarrow> inline_data option" where
  "first_inlineData response =
     (case candidates response of
        None \<Rightarrow> None
      | Some [] \<Rightarrow> None
      | Some (c # cs) \<Rightarrow>
          (case content c of
             None \<Rightarrow> None
           | Some ct \<Rightarrow>
               (case parts ct of
                  None \<Rightarrow> None
                | Some [] \<Rightarrow> None
                | Some (p # ps) \<Rightarrow> inlineData p)))"

definition TypeError :: js_error where
  "TypeError = JsError ''TypeError'' ''Cannot read properties of undefined''"

definition RangeError :: js_error where
  "RangeError = JsError ''RangeError'' ''Offset is outside the bounds of the DataView''"

text \<open>
  \<^verbatim>\<open>generateAudio\<close>: no inline data gives \<^verbatim>\<open>null\<close>; otherwise the payload is decoded,
  copied code unit by code unit into a byte array, wrapped, and an object URL of the
  blob is returned.
\<close>

definition audioRequest :: "string \<Rightarrow> language \<Rightarrow> request" where
  "audioRequest text language =
     \<lparr>model = ''gemini-2.5-flash-preview-tts'',
      contents = ''Speak enthusiastically in '' @ language_name language @ '': '' @ text,
      config = SpeechConfig ''Puck''\<rparr>"

definition generateAudio ::
  "backend \<Rightarrow> string \<Rightarrow> language \<Rightarrow> world \<Rightarrow> (js_error + url option) \<times> world" where
  "generateAudio backend text language w =
     (case getAI w of
        Inl e \<Rightarrow> (Inl e, w)
      | Inr ai \<Rightarrow>
          (case generateContent backend ai (audioRequest text language) w of
             (Inl e, w') \<Rightarrow> (Inl e, w')
           | (Inr response, w') \<Rightarrow>
               (case first_inlineData response of
                  None \<Rightarrow> (Inr None, w')
                | Some part \<Rightarrow>
                    (case data part of
                       None \<Rightarrow> (Inl TypeError, w')
                     | Some d \<Rightarrow>
                         (case atob (filter (\<lambda>c. \<not> is_space c) d) of
                            Inl e \<Rightarrow> (Inl e, w')
                          | Inr binaryString \<Rightarrow>
                              (let bytes = map (\<lambda>c. of_nat (of_char c) :: byte) binaryString
                               in case wavBlob bytes of
                                    None \<Rightarrow> (Inl RangeError, w')
                                  | Some blob \<Rightarrow>
                                      (let (u, w'') = createObjectURL blob w'
                                       in (Inr (Some u), w''))))))))"

text \<open>
  \<^verbatim>\<open>generateVisual\<close>: the first part of the first candidate that carries inline data,
  as a \<^verbatim>\<open>data:\<close> URL; \<^verbatim>\<open>null\<close> when there is none.
\<close>

definition first_parts :: "response \<Rightarrow> part list" where
  "first_parts response =
     (case candidates response of
        None \<Rightarrow> []
      | Some [] \<Rightarrow> []
      | Some (c # cs) \<Rightarrow>
          (case content c of
             None \<Rightarrow> []
           | Some ct \<Rightarrow> (case parts ct of None \<Rightarrow> [] | Some ps \<Rightarrow> ps)))"

fun find_inlineData :: "part list \<Rightarrow> inline_data option" where
  "find_inlineData [] = None"
| "find_inlineData (p # ps) =
     (case inlineData p of Some d \<Rightarrow> Some d | None \<Rightarrow> find_inlineData ps)"

definition visualRequest :: "string \<Rightarrow> request" where
  "visualRequest prompt =
     \<lparr>model = ''gemini-2.5-flash-image'',
      contents = ''A high-quality, cinematic product showcase image for: '' @ prompt
        @ ''. Professional lighting, vertical 9:16 aspect ratio.'',
      config = ImageConfig ''9:16''\<rparr>"

definition generateVisual ::
  "backend \<Rightarrow> string \<Rightarrow> world \<Rightarrow> (js_error + url option) \<times> world" where
  "generateVisual backend prompt w =
     (case getAI w of
        Inl e \<Rightarrow> (Inl e, w)
      | Inr ai \<Rightarrow>
          (case generateContent backend ai (visualRequest prompt) w of
             (Inl e, w') \<Rightarrow> (Inl e, w')
           | (Inr response, w') \<Rightarrow>
               (case find_inlineData (first_parts response) of
                  Some d \<Rightarrow>
                    (Inr (Some (data_url (''data:image/png;base64,''
                        @ (case data d of None \<Rightarrow> ''undefined'' | Some x \<Rightarrow> x)))), w')
                | None \<Rightarrow> (Inr None, w'))))"

section \<open>The application state\<close>

text \<open>
  The \<^verbatim>\<open>useState\<close> cells of \<^verbatim>\<open>App\<close> that the pipeline uses. \<^verbatim>\<open>script\<close> is typed
  \<^verbatim>\<open>Script | null\<close> and receives the untyped result of \<^verbatim>\<open>generateScript\<close>, so it
  holds any JSON value.
\<close>

record state =
  query :: string
  loading :: bool
  step :: step
  language :: language
  productInfo :: string
  script :: "json option"
  audioUrl :: "url option"
  imageUrl :: "url option"
  error :: "string option"
  isYoutubeConnected :: bool

text \<open>\<^verbatim>\<open>!script\<close> for a cell holding \<^verbatim>\<open>null\<close> or a value.\<close>

definition present :: "json option \<Rightarrow> bool" where
  "present v = (case v of None \<Rightarrow> False | Some x \<Rightarrow> truthy x)"

definition initial_state :: "world \<Rightarrow> state" where
  "initial_state w =
     \<lparr>query = [], loading = False, step = step_search, language = English, productInfo = [],
      script = None, audioUrl = None, imageUrl = None, error = None,
      isYoutubeConnected = (isYoutubeConnected_item w = Some ''true'')\<rparr>"

subsection \<open>Effects\<close>

text \<open>
  The restore effect, run once after the first render. A malformed item makes
  \<^verbatim>\<open>JSON.parse\<close> throw inside the \<^verbatim>\<open>try\<close>, and nothing is restored.
\<close>

definition restore :: "world \<Rightarrow> state \<Rightarrow> state" where
  "restore w s =
     (case shorts_ai_state w of
        None \<Rightarrow> s
      | Some Malformed \<Rightarrow> s
      | Some (Saved saved) \<Rightarrow>
          s\<lparr>query := saved_query saved,
            step := saved_step saved,
            productInfo := saved_productInfo saved,
            script := (if present (saved_script saved) then saved_script saved else None)\<rparr>)"

text \<open>The persistence effect, with dependencies \<^verbatim>\<open>[query, step, productInfo, script]\<close>.\<close>

definition persist :: "state \<Rightarrow> world \<Rightarrow> world" where
  "persist s w =
     w\<lparr>shorts_ai_state := Some (Saved
        \<lparr>saved_query = query s,
         saved_step = step s,
         saved_productInfo = productInfo s,
         saved_script =
           (case script s of
              None \<Rightarrow> None
            | Some sc \<Rightarrow>
                if truthy sc
                then Some (JObj [(''hook'', JStr (String_js (property sc ''hook''))),
                                 (''body'', JStr (String_js (property sc ''body''))),
                                 (''cta'', JStr (String_js (property sc ''cta'')))])
                else None)\<rparr>)\<rparr>"

text \<open>
  The clean-up of the object-URL effect, with dependencies \<^verbatim>\<open>[audioUrl, imageUrl]\<close>: it
  runs with the values of the previous render.
\<close>

definition is_blob :: "url option \<Rightarrow> bool" where
  "is_blob u = (case u of Some (blob_url n) \<Rightarrow> True | _ \<Rightarrow> False)"

definition cleanup_urls :: "state \<Rightarrow> world \<Rightarrow> world" where
  "cleanup_urls s w =
     (let w1 = (if is_blob (audioUrl s) then revokeObjectURL (the (audioUrl s)) w else w)
      in if is_blob (imageUrl s) then revokeObjectURL (the (imageUrl s)) w1 else w1)"

text \<open>
  What React runs after a handler has changed the state from \<open>old\<close> to \<open>new\<close>: the
  clean-ups and effects whose dependencies changed.
\<close>

definition run_effects :: "state \<Rightarrow> state \<Rightarrow> world \<Rightarrow> world" where
  "run_effects old new w =
     (let w1 = (if (audioUrl new, imageUrl new) \<noteq> (audioUrl old, imageUrl old)
                then cleanup_urls old w else w);
          w2 = (if (query new, step new, productInfo new, script new)
                      \<noteq> (query old, step old, productInfo old, script old)
                then persist new w1 else w1)
      in if isYoutubeConnected new \<noteq> isYoutubeConnected old
         then w2\<lparr>isYoutubeConnected_item :=
                   Some (if isYoutubeConnected new then ''true'' else ''false'')\<rparr>
         else w2)"

text \<open>
  Start-up: the first render with the initial state, its effects (restore, the
  \<^verbatim>\<open>youtube_success\<close> flag of the address, persistence and the connection flag, both
  with the values of the first render), then the effects of the render that follows.
\<close>

definition mount :: "bool \<Rightarrow> world \<Rightarrow> state \<times> world" where
  "mount youtube_success w =
     (let s0 = initial_state w;
          s1 = restore w s0;
          s2 = (if youtube_success then s1\<lparr>isYoutubeConnected := True\<rparr> else s1);
          w1 = (if youtube_success then w\<lparr>isYoutubeConnected_item := Some ''true''\<rparr> else w);
          w2 = persist s0 w1;
          w3 = w2\<lparr>isYoutubeConnected_item :=
                    Some (if isYoutubeConnected s0 then ''true'' else ''false'')\<rparr>
      in (s2, run_effects s0 s2 w3))"

subsection \<open>Handlers\<close>

definition handleMessage :: "string option \<Rightarrow> state \<Rightarrow> state" where
  "handleMessage data_type s =
     (if data_type = Some ''YOUTUBE_AUTH_SUCCESS''
      then s\<lparr>isYoutubeConnected := True, step := step_preview\<rparr>
      else s)"

text \<open>
  \<^verbatim>\<open>clearState\<close>: \<^verbatim>\<open>localStorage.removeItem\<close>, then the six setters
  (\<open>clearState_setters\<close>).
\<close>

definition clearState_setters :: "state \<Rightarrow> state" where
  "clearState_setters s =
     s\<lparr>query := [], step := step_search, productInfo := [], script := None,
       audioUrl := None, imageUrl := None\<rparr>"

definition clearState :: "state \<times> world \<Rightarrow> state \<times> world" where
  "clearState sw =
     (case sw of (s, w) \<Rightarrow> (clearState_setters s, w\<lparr>shorts_ai_state := None\<rparr>))"

text \<open>
  \<^verbatim>\<open>handleSearch\<close>, in the three pieces its two \<^verbatim>\<open>await\<close>s cut it into. The
  \<^verbatim>\<open>catch\<close> block records \<^verbatim>\<open>err.message\<close> or a fixed text, and \<^verbatim>\<open>finally\<close> clears
  \<^verbatim>\<open>loading\<close>.
\<close>

definition handleSearch_start :: "state \<Rightarrow> state option" where
  "handleSearch_start s =
     (if query s = [] then None else Some (s\<lparr>loading := True, error := None\<rparr>))"

definition handleSearch_catch :: "js_error \<Rightarrow> state \<Rightarrow> state" where
  "handleSearch_catch err s =
     s\<lparr>error := Some (if message err \<noteq> [] then message err
                       else ''An unexpected error occurred during search. Please check your API key and connection.''),
       loading := False\<rparr>"

definition handleSearch_info :: "js_error + string option \<Rightarrow> state \<Rightarrow> state \<times> string option" where
  "handleSearch_info r s =
     (case r of
        Inl err \<Rightarrow> (handleSearch_catch err s, None)
      | Inr info \<Rightarrow>
          if info = None \<or> info = Some []
          then (handleSearch_catch
                  (JsError ''Error''
                     ''Could not find product information. Please try a different search term.'') s,
                None)
          else (s\<lparr>productInfo := the info\<rparr>, info))"

definition handleSearch_script :: "js_error + json \<Rightarrow> state \<Rightarrow> state" where
  "handleSearch_script r s =
     (case r of
        Inl err \<Rightarrow> handleSearch_catch err s
      | Inr generatedScript \<Rightarrow>
          if \<not> truthy generatedScript
          then handleSearch_catch (JsError ''Error'' ''Failed to generate script.'') s
          else s\<lparr>script := Some generatedScript, step := step_script, loading := False\<rparr>)"

definition handleSearch ::
  "(string \<Rightarrow> js_error + json) \<Rightarrow> backend \<Rightarrow> state \<times> world \<Rightarrow> state \<times> world" where
  "handleSearch JSON_parse backend sw =
     (case sw of (s, w) \<Rightarrow>
        (case handleSearch_start s of
           None \<Rightarrow> (s, w)
         | Some s0 \<Rightarrow>
             (case searchProduct backend (query s) w of (r1, w1) \<Rightarrow>
                (case handleSearch_info r1 s0 of
                   (s1, None) \<Rightarrow> (s1, w1)
                 | (s1, Some info) \<Rightarrow>
                     (case generateScript JSON_parse backend info (language s) w1 of (r2, w2) \<Rightarrow>
                        (handleSearch_script r2 s1, w2))))))"

text \<open>
  \<^verbatim>\<open>handleGenerateAssets\<close>. Both generators are called, one after the other, before
  anything is awaited; \<^verbatim>\<open>Promise.all\<close> fulfils with both results or rejects. The
  \<^verbatim>\<open>catch\<close> block only logs.
\<close>

definition promise_all :: "js_error + 'a \<Rightarrow> js_error + 'b \<Rightarrow> js_error + 'a \<times> 'b" where
  "promise_all ra rb =
     (case ra of
        Inl e \<Rightarrow> Inl e
      | Inr a \<Rightarrow> (case rb of Inl e \<Rightarrow> Inl e | Inr b \<Rightarrow> Inr (a, b)))"

definition fullText :: "json \<Rightarrow> string" where
  "fullText sc =
     String_js (property sc ''hook'') @ ''. '' @ String_js (property sc ''body'') @ ''. ''
     @ String_js (property sc ''cta'')"

definition handleGenerateAssets_start :: "state \<Rightarrow> (state \<times> string) option" where
  "handleGenerateAssets_start s =
     (if \<not> present (script s) then None
      else Some (s\<lparr>loading := True\<rparr>, fullText (the (script s))))"

definition handleGenerateAssets_settled ::
  "js_error + url option \<Rightarrow> js_error + url option \<Rightarrow> state \<Rightarrow> state" where
  "handleGenerateAssets_settled ra ri s =
     (case promise_all ra ri of
        Inr (audio, image') \<Rightarrow>
          s\<lparr>audioUrl := audio, imageUrl := image', step := step_preview, loading := False\<rparr>
      | Inl err \<Rightarrow> s\<lparr>loading := False\<rparr>)"

definition handleGenerateAssets :: "backend \<Rightarrow> state \<times> world \<Rightarrow> state \<times> world" where
  "handleGenerateAssets backend sw =
     (case sw of (s, w) \<Rightarrow>
        (case handleGenerateAssets_start s of
           None \<Rightarrow> (s, w)
         | Some (s1, txt) \<Rightarrow>
             (case generateAudio backend txt (language s) w of (ra, w1) \<Rightarrow>
                (case generateVisual backend (query s) w1 of (ri, w2) \<Rightarrow>
                   (handleGenerateAssets_settled ra ri s1, w2)))))"

text \<open>
  \<^verbatim>\<open>handleDownloadAll\<close>, up to the list of entries handed to the archiver. \<^verbatim>\<open>fetch\<close> of
  an artifact's URL gives its bytes or rejects, and a rejection leaves the handler.
\<close>

datatype entry = Binary "byte list" | Plain string

definition handleDownloadAll ::
  "(url \<Rightarrow> js_error + byte list) \<Rightarrow> state \<Rightarrow> js_error + (string \<times> entry) list" where
  "handleDownloadAll fetch s =
     (case (case imageUrl s of
              None \<Rightarrow> Inr []
            | Some u \<Rightarrow> (case fetch u of
                           Inl e \<Rightarrow> Inl e
                         | Inr imgData \<Rightarrow> Inr [(''visual.png'', Binary imgData)])) of
        Inl e \<Rightarrow> Inl e
      | Inr zip1 \<Rightarrow>
          (case (case audioUrl s of
                   None \<Rightarrow> Inr zip1
                 | Some u \<Rightarrow> (case fetch u of
                                Inl e \<Rightarrow> Inl e
                              | Inr audioData \<Rightarrow> Inr (zip1 @ [(''audio.wav'', Binary audioData)]))) of
             Inl e \<Rightarrow> Inl e
           | Inr zip2 \<Rightarrow>
               Inr (if present (script s)
                    then zip2 @ [(''script.txt'',
                           Plain (''HOOK: '' @ String_js (property (the (script s)) ''hook'')
                                  @ [CHR 0x0A, CHR 0x0A] @ ''BODY: ''
                                  @ String_js (property (the (script s)) ''body'')
                                  @ [CHR 0x0A, CHR 0x0A] @ ''CTA: ''
                                  @ String_js (property (the (script s)) ''cta'')))]
                    else zip2)))"

section \<open>Overlapping handlers\<close>

text \<open>
  The handlers are asynchronous: between the pieces of one, events are handled and other
  handlers start. Here a run is a list of events. Each started handler is a task that
  waits for a promise; the event that settles it carries the promise's outcome. An event
  is possible only where the interface offers it: the search form is rendered at
  \<^verbatim>\<open>step === 'search'\<close> and its button is disabled while \<^verbatim>\<open>loading\<close> or without a
  query, the script review at \<^verbatim>\<open>step === 'script' && script\<close> with the assets button
  disabled while \<^verbatim>\<open>loading\<close>, the preview at \<^verbatim>\<open>step === 'preview'\<close>; the message
  listener is registered while the component is mounted. After the component is
  unmounted nothing more is observed. The exit animation of a stage, during which its
  controls are still live, and a render that throws are not followed. The browser side of the handlers (requests, object
  URLs, storage) is followed in the functions above, not here.
\<close>

datatype task = AwaitLookup | AwaitScript | AwaitAssets | Settled

datatype event =
    SetQuery string
  | SetLanguage language
  | ClickSearch
  | PressEnter
  | LookupSettled nat "js_error + string option"
  | ScriptSettled nat "js_error + json"
  | ClickGenerateAssets
  | AssetsSettled nat "js_error + url option" "js_error + url option"
  | ClickStartOver
  | ClickDiscard
  | Message "string option"
  | Unmount

record app =
  ui :: state
  tasks :: "task list"
  mounted :: bool

definition start_search :: "app \<Rightarrow> app" where
  "start_search a =
     (case handleSearch_start (ui a) of
        None \<Rightarrow> a
      | Some s \<Rightarrow> a\<lparr>ui := s, tasks := tasks a @ [AwaitLookup]\<rparr>)"

definition awaiting :: "app \<Rightarrow> nat \<Rightarrow> task \<Rightarrow> bool" where
  "awaiting a i t = (i < length (tasks a) \<and> tasks a ! i = t)"

fun fire :: "event \<Rightarrow> app \<Rightarrow> app option" where
  "fire (SetQuery q) a =
     (if mounted a \<and> step (ui a) = step_search then Some (a\<lparr>ui := (ui a)\<lparr>query := q\<rparr>\<rparr>) else None)"
| "fire (SetLanguage l) a =
     (if mounted a \<and> step (ui a) = step_search then Some (a\<lparr>ui := (ui a)\<lparr>language := l\<rparr>\<rparr>)
      else None)"
| "fire ClickSearch a =
     (if mounted a \<and> step (ui a) = step_search \<and> \<not> loading (ui a) \<and> query (ui a) \<noteq> []
      then Some (start_search a) else None)"
| "fire PressEnter a =
     (if mounted a \<and> step (ui a) = step_search then Some (start_search a) else None)"
| "fire (LookupSettled i r) a =
     (if mounted a \<and> awaiting a i AwaitLookup
      then (case handleSearch_info r (ui a) of
              (s, None) \<Rightarrow> Some (a\<lparr>ui := s, tasks := (tasks a)[i := Settled]\<rparr>)
            | (s, Some info) \<Rightarrow> Some (a\<lparr>ui := s, tasks := (tasks a)[i := AwaitScript]\<rparr>))
      else None)"
| "fire (ScriptSettled i r) a =
     (if mounted a \<and> awaiting a i AwaitScript
      then Some (a\<lparr>ui := handleSearch_script r (ui a), tasks := (tasks a)[i := Settled]\<rparr>)
      else None)"
| "fire ClickGenerateAssets a =
     (if mounted a \<and> step (ui a) = step_script \<and> present (script (ui a)) \<and> \<not> loading (ui a)
      then (case handleGenerateAssets_start (ui a) of
              None \<Rightarrow> Some a
            | Some (s, txt) \<Rightarrow> Some (a\<lparr>ui := s, tasks := tasks a @ [AwaitAssets]\<rparr>))
      else None)"
| "fire (AssetsSettled i ra ri) a =
     (if mounted a \<and> awaiting a i AwaitAssets
      then Some (a\<lparr>ui := handleGenerateAssets_settled ra ri (ui a),
                   tasks := (tasks a)[i := Settled]\<rparr>)
      else None)"
| "fire ClickStartOver a =
     (if mounted a \<and> step (ui a) = step_script \<and> present (script (ui a))
      then Some (a\<lparr>ui := clearState_setters (ui a)\<rparr>) else None)"
| "fire ClickDiscard a =
     (if mounted a \<and> step (ui a) = step_preview
      then Some (a\<lparr>ui := clearState_setters (ui a)\<rparr>) else None)"
| "fire (Message data_type) a =
     (if mounted a then Some (a\<lparr>ui := handleMessage data_type (ui a)\<rparr>) else None)"
| "fire Unmount a = (if mounted a then Some (a\<lparr>mounted := False\<rparr>) else None)"

fun run :: "event list \<Rightarrow> app \<Rightarrow> app option" where
  "run [] a = Some a"
| "run (e # es) a = (case fire e a of None \<Rightarrow> None | Some a' \<Rightarrow> run es a')"

section \<open>Sample inputs\<close>

text \<open>Concrete browsers, backends and states on which the functions above are run.\<close>

definition fresh_world :: world where
  "fresh_world =
     \<lparr>GEMINI_API_KEY = Some ''key'', requests = [], objectURLs = [], created = 0,
      shorts_ai_state = None, isYoutubeConnected_item = None\<rparr>"

definition no_key_world :: world where
  "no_key_world = fresh_world\<lparr>GEMINI_API_KEY := None\<rparr>"

definition widget_script :: json where
  "widget_script =
     JObj [(''hook'', JStr ''Amazing!''), (''body'', JStr ''It works.''), (''cta'', JStr ''Buy now!'')]"

definition inline_response :: "string \<Rightarrow> response" where
  "inline_response d =
     \<lparr>response_text = None,
      candidates = Some [Candidate (Some (Content (Some [Part (Some (InlineData (Some d)))])))]\<rparr>"

definition text_response :: "string \<Rightarrow> response" where
  "text_response t = \<lparr>response_text = Some t, candidates = None\<rparr>"

text \<open>
  A backend that finds the product, writes a script of three fields, and returns two PCM
  bytes and an image; and one whose script lacks the field \<^verbatim>\<open>cta\<close>.
\<close>

definition widget_text :: string where
  "widget_text = ''{\"hook\":\"Amazing!\",\"body\":\"It works.\",\"cta\":\"Buy now!\"}''"

definition two_field_text :: string where
  "two_field_text = ''{\"hook\":\"Amazing!\",\"body\":\"It works.\"}''"

definition widget_backend :: backend where
  "widget_backend ai req =
     (case config req of
        Tools_googleSearch \<Rightarrow> Inr (text_response ''Widget is great'')
      | ResponseSchema ps rs \<Rightarrow>
          Inr (text_response widget_text)
      | SpeechConfig v \<Rightarrow> Inr (inline_response ''AQI='')
      | ImageConfig r \<Rightarrow> Inr (inline_response ''iVBORw0KGgo=''))"

definition two_field_backend :: backend where
  "two_field_backend ai req =
     (case config req of
        ResponseSchema ps rs \<Rightarrow>
          Inr (text_response two_field_text)
      | _ \<Rightarrow> widget_backend ai req)"

text \<open>A backend whose speech call answers without audio and whose other calls succeed.\<close>

definition silent_backend :: backend where
  "silent_backend ai req =
     (case config req of
        SpeechConfig v \<Rightarrow> Inr (text_response ''no audio'')
      | _ \<Rightarrow> widget_backend ai req)"

text \<open>A backend whose image call is rejected, and one whose script call is rejected.\<close>

definition image_failing_backend :: backend where
  "image_failing_backend ai req =
     (case config req of
        ImageConfig r \<Rightarrow> Inl (JsError ''ApiError'' ''image generation failed'')
      | _ \<Rightarrow> widget_backend ai req)"

definition script_failing_backend :: backend where
  "script_failing_backend ai req =
     (case config req of
        ResponseSchema ps rs \<Rightarrow> Inl (JsError ''ApiError'' ''quota exceeded'')
      | _ \<Rightarrow> widget_backend ai req)"

text \<open>The state after a successful search for \<^verbatim>\<open>Test Widget\<close>, and a component just mounted.\<close>

definition review_state :: state where
  "review_state =
     (initial_state fresh_world)
       \<lparr>query := ''Test Widget'', step := step_script, productInfo := ''Widget is great'',
        script := Some widget_script\<rparr>"

definition preview_state :: state where
  "preview_state = fst (handleGenerateAssets widget_backend (review_state, fresh_world))"

definition preview_world :: world where
  "preview_world = snd (handleGenerateAssets widget_backend (review_state, fresh_world))"

definition search_state :: state where
  "search_state = (initial_state fresh_world)\<lparr>query := ''Test Widget''\<rparr>"

definition fresh_app :: app where
  "fresh_app = \<lparr>ui = fst (mount False fresh_world), tasks = [], mounted = True\<rparr>"

text \<open>
  A run in which Enter is pressed twice in the search form: two searches are in flight,
  the first completes, the assets are generated, and then the second search completes.
\<close>

definition double_enter_run :: "event list" where
  "double_enter_run =
     [SetQuery ''Test Widget'',
      PressEnter,
      PressEnter,
      LookupSettled 0 (fst (searchProduct widget_backend ''Test Widget'' fresh_world)),
      ScriptSettled 0
        (fst (generateScript JSON_parse_plain widget_backend ''Widget is great'' English fresh_world)),
      ClickGenerateAssets,
      AssetsSettled 2
        (fst (generateAudio widget_backend (fullText widget_script) English fresh_world))
        (fst (generateVisual widget_backend ''Test Widget'' fresh_world)),
      LookupSettled 1 (fst (searchProduct widget_backend ''Test Widget'' fresh_world)),
      ScriptSettled 1
        (fst (generateScript JSON_parse_plain widget_backend ''Widget is great'' English fresh_world))]"

text \<open>
  The state that run ends in, and a click on the assets button there with the image
  generation rejected.
\<close>

definition stale_state :: state where
  "stale_state =
     (case run double_enter_run fresh_app of
        Some a \<Rightarrow> ui a
      | None \<Rightarrow> initial_state fresh_world)"

definition stale_assets_run :: "event list" where
  "stale_assets_run =
     double_enter_run @
     [ClickGenerateAssets,
      AssetsSettled 3
        (fst (generateAudio image_failing_backend (fullText widget_script) English preview_world))
        (fst (generateVisual image_failing_backend ''Test Widget'' preview_world))]"

section \<open>Notions used in the proofs about runs\<close>

text \<open>
  A run in which Enter is not pressed in the search form while \<^verbatim>\<open>loading\<close> is set:
  what the \<^verbatim>\<open>disabled\<close> attribute of the search button enforces for a click.
\<close>

fun run_gated :: "event list \<Rightarrow> app \<Rightarrow> app option" where
  "run_gated [] a = Some a"
| "run_gated (e # es) a =
     (if e = PressEnter \<and> loading (ui a) then None
      else (case fire e a of None \<Rightarrow> None | Some a' \<Rightarrow> run_gated es a'))"

text \<open>The tasks that still wait for a promise.\<close>

definition in_flight :: "task list \<Rightarrow> task list" where
  "in_flight ts = filter (\<lambda>t. t \<noteq> Settled) ts"

text \<open>
  The invariant of such runs. For the stage: no artifact before the preview, no script at
  the search stage, the stage \<^verbatim>\<open>'upload'\<close> never taken. For the tasks: at most one
  handler in flight, \<^verbatim>\<open>loading\<close> set while it is, and no artifact while a search is in
  flight.
\<close>

definition stage_ok :: "state \<Rightarrow> bool" where
  "stage_ok s =
     ((step s = step_search \<or> step s = step_script \<longrightarrow> audioUrl s = None \<and> imageUrl s = None)
      \<and> (step s = step_search \<longrightarrow> script s = None)
      \<and> step s \<noteq> step_upload)"

fun flight_ok :: "task list \<Rightarrow> state \<Rightarrow> bool" where
  "flight_ok [] s = True"
| "flight_ok [t] s =
     (loading s \<and> (t \<noteq> AwaitAssets \<longrightarrow> audioUrl s = None \<and> imageUrl s = None))"
| "flight_ok (t # t' # ts) s = False"

definition orderly :: "app \<Rightarrow> bool" where
  "orderly a = (stage_ok (ui a) \<and> flight_ok (in_flight (tasks a)) (ui a))"

section \<open>Properties of the audio container\<close>

lemma split_bytes32:
  fixes n :: nat
  assumes "n < 2 ^ 32"
  shows "(((n div 2 ^ 24) mod 256 * 256 + (n div 2 ^ 16) mod 256) * 256
          + (n div 2 ^ 8) mod 256) * 256 + n mod 256 = n"
proof -
  define a where "a = n div 256"
  define b where "b = a div 256"
  define c where "c = b div 256"
  have a: "n div 2 ^ 8 = a" by (simp add: a_def)
  have b: "n div 2 ^ 16 = b" by (simp add: a_def b_def div_mult2_eq)
  have c: "n div 2 ^ 24 = c" by (simp add: a_def b_def c_def div_mult2_eq)
  have "c < 256" using assms by (simp add: c [symmetric] less_mult_imp_div_less)
  then have c': "c mod 256 = c" by simp
  have 1: "c * 256 + b mod 256 = b" by (simp add: c_def)
  have 2: "b * 256 + a mod 256 = a" by (simp add: b_def)
  have 3: "a * 256 + n mod 256 = n" by (simp add: a_def)
  show ?thesis by (simp only: a b c c' 1 2 3)
qed

lemma split_bytes16:
  fixes n :: nat
  assumes "n < 2 ^ 16"
  shows "(n div 2 ^ 8) mod 256 * 256 + n mod 256 = n"
proof -
  have "n div 2 ^ 8 < 256" using assms by (simp add: less_mult_imp_div_less)
  then show ?thesis by simp
qed

lemma unat_byte_of:
  fixes w :: "'a::len word"
  shows "unat (ucast (drop_bit k w) :: byte) = (unat w div 2 ^ k) mod 256"
proof -
  have "unat (ucast (drop_bit k w) :: byte) = take_bit 8 (drop_bit k (unat w))"
    by (simp add: unsigned_ucast_eq unat_drop_bit_eq)
  then show ?thesis
    by (simp add: take_bit_eq_mod drop_bit_eq_div)
qed

lemma unat_low_byte:
  fixes w :: "'a::len word"
  shows "unat (ucast w :: byte) = unat w mod 256"
  using unat_byte_of [of 0 w] by simp

lemma unsigned_be32: "unsigned_be (be32 w) = unat w"
proof -
  have bound: "unat w < 2 ^ 32" using unsigned_less [of w] by simp
  have "unsigned_be (be32 w) =
      (((unat w div 2 ^ 24) mod 256 * 256 + (unat w div 2 ^ 16) mod 256) * 256
        + (unat w div 2 ^ 8) mod 256) * 256 + unat w mod 256"
    apply (simp only: unsigned_be_def be32_def foldl.simps unat_byte_of)
    apply (simp only: unat_low_byte mult_zero_left add_0)
    done
  then show ?thesis by (simp only: split_bytes32 [OF bound])
qed

lemma unsigned_be16: "unsigned_be (be16 w) = unat w"
proof -
  have bound: "unat w < 2 ^ 16" using unsigned_less [of w] by simp
  have "unsigned_be (be16 w) = (unat w div 2 ^ 8) mod 256 * 256 + unat w mod 256"
    apply (simp only: unsigned_be_def be16_def foldl.simps unat_byte_of)
    apply (simp only: unat_low_byte mult_zero_left add_0)
    done
  then show ?thesis by (simp only: split_bytes16 [OF bound])
qed

text \<open>The thirteen writes never leave the 44-byte buffer, and give this header.\<close>

lemma wavHeader_eq:
  "wavHeader len = Some
     ([0x52, 0x49, 0x46, 0x46] @ rev (be32 (of_nat (36 + len))) @
      [0x57, 0x41, 0x56, 0x45, 0x66, 0x6d, 0x74, 0x20, 16, 0, 0, 0, 1, 0, 1, 0,
       0xC0, 0x5D, 0, 0, 0x80, 0xBB, 0, 0, 2, 0, 16, 0, 0x64, 0x61, 0x74, 0x61] @
      rev (be32 (of_nat len)))"
  by (simp add: wavHeader_def setUint32_def setUint16_def write_at_def be32_def be16_def)

lemma length_be32 [simp]: "length (be32 w) = 4"
  by (simp add: be32_def)

lemma wavBlob_eq:
  "wavBlob bytes = Some
     ([0x52, 0x49, 0x46, 0x46] @ rev (be32 (of_nat (36 + length bytes))) @
      [0x57, 0x41, 0x56, 0x45, 0x66, 0x6d, 0x74, 0x20, 16, 0, 0, 0, 1, 0, 1, 0,
       0xC0, 0x5D, 0, 0, 0x80, 0xBB, 0, 0, 2, 0, 16, 0, 0x64, 0x61, 0x74, 0x61] @
      rev (be32 (of_nat (length bytes))) @ bytes)"
  by (simp add: wavBlob_def wavHeader_eq)

lemma getUint_le32_at:
  "length pre = off \<Longrightarrow> getUint 4 off True (pre @ rev (be32 w) @ post) = Some (unat w)"
  by (simp add: getUint_def unsigned_be32)

text \<open>
  Claim C1. For every PCM byte sequence \<open>pcm\<close> of length \<open>N\<close> that the code can be
  given, the container-wrapping step of \<^verbatim>\<open>generateAudio\<close> raises no error and produces
  a binary object of length \<open>N + 44\<close>: the tags \<^verbatim>\<open>RIFF\<close>, \<^verbatim>\<open>WAVE\<close>,
  \<^verbatim>\<open>fmt \<close> and \<^verbatim>\<open>data\<close> at offsets 0, 8, 12 and 36, the little-endian fields chunk size
  \<open>36 + N\<close> at offset 4, format-chunk length 16, format tag 1, channel count 1, sample rate
  24000, byte rate 48000, block align 2, bits per sample 16 and data length \<open>N\<close> at offset 40,
  and then the input bytes unchanged. The bytes are the code units of the string that
  \<^verbatim>\<open>window.atob\<close> returns, and a JavaScript string is shorter than \<open>2 ^ 32 - 36\<close> in
  every engine, which is the hypothesis \<open>N + 36 < 2 ^ 32\<close>; \<open>N\<close> need not be even.
\<close>

theorem wav_container:
  assumes "length pcm + 36 < 2 ^ 32"
  shows "\<exists>blob. wavBlob pcm = Some blob
    \<and> length blob = length pcm + 44
    \<and> take 4 blob = ascii ''RIFF''
    \<and> take 4 (drop 8 blob) = ascii ''WAVE''
    \<and> take 4 (drop 12 blob) = ascii ''fmt ''
    \<and> take 4 (drop 36 blob) = ascii ''data''
    \<and> getUint32 4 True blob = Some (36 + length pcm)
    \<and> getUint32 16 True blob = Some 16
    \<and> getUint16 20 True blob = Some 1
    \<and> getUint16 22 True blob = Some 1
    \<and> getUint32 24 True blob = Some 24000
    \<and> getUint32 28 True blob = Some 48000
    \<and> getUint16 32 True blob = Some 2
    \<and> getUint16 34 True blob = Some 16
    \<and> getUint32 40 True blob = Some (length pcm)
    \<and> drop 44 blob = pcm"
proof -
  let ?w1 = "of_nat (36 + length pcm) :: 32 word" and ?w2 = "of_nat (length pcm) :: 32 word"
  have "unat ?w1 = (36 + length pcm) mod 2 ^ LENGTH(32)" by (rule unat_of_nat)
  then have u1: "unat ?w1 = 36 + length pcm" using assms by simp
  have "unat ?w2 = length pcm mod 2 ^ LENGTH(32)" by (rule unat_of_nat)
  then have u2: "unat ?w2 = length pcm" using assms by simp
  have u1': "unat (36 + of_nat (length pcm) :: 32 word) = 36 + length pcm" using u1 by simp
  have fields: "unsigned_be [0, 0, 0, 16] = 16" "unsigned_be [0, 1] = 1"
    "unsigned_be [0, 0, 93, 192] = 24000" "unsigned_be [0, 0, 187, 128] = 48000"
    "unsigned_be [0, 2] = 2" "unsigned_be [0, 16] = 16"
    by (simp_all add: unsigned_be_def)
  note b = wavBlob_eq [of pcm]
  show ?thesis
    apply (rule exI, rule conjI, rule b)
    apply (intro conjI)
    apply (simp_all add: ascii_def getUint32_def getUint16_def getUint_def unsigned_be32 u1' u2 fields)
    done
qed

theorem wav_container_witness:
  "(length [1, 2 :: byte] + 36 < 2 ^ 32) \<and>
   (\<exists>blob. wavBlob [1, 2] = Some blob \<and> length blob = 46 \<and> getUint32 4 True blob = Some 38
     \<and> getUint32 24 True blob = Some 24000 \<and> getUint32 40 True blob = Some 2
     \<and> drop 44 blob = [1, 2])"
  using wav_container [of "[1, 2]"] by auto

text \<open>
  The hypothesis is needed only because lists have no bound on their length: the two
  length fields are 32 bits wide, so a list of \<open>2 ^ 32 - 36\<close> bytes, longer than any
  string, would get the chunk size 0.
\<close>

lemma wav_chunk_size_wraps:
  "even (length (replicate 4294967260 (0 :: byte))) \<and>
   Option.bind (wavBlob (replicate 4294967260 0)) (getUint32 4 True) = Some 0 \<and>
   Option.bind (wavBlob (replicate 4294967260 0)) (getUint32 4 True)
     \<noteq> Some (36 + length (replicate 4294967260 (0 :: byte)))"
  by (simp add: wavBlob_eq getUint32_def getUint_def unsigned_be32)

section \<open>Properties of the generation client\<close>

lemma getAI_missing:
  "GEMINI_API_KEY w = None \<or> GEMINI_API_KEY w = Some [] \<Longrightarrow> getAI w = Inl missing_key"
  by (auto simp: getAI_def)

text \<open>
  Claim C7. With no credential configured (absent or empty) at the time of the call,
  each of \<^verbatim>\<open>searchProduct\<close>, \<^verbatim>\<open>generateScript\<close>, \<^verbatim>\<open>generateAudio\<close> and
  \<^verbatim>\<open>generateVisual\<close> fails with the missing-credential error and leaves the browser and
  the list of requests sent as they were: nothing reaches the network. The credential is
  read from the state of the call, so the check is made on every call of every operation.
\<close>

theorem missing_credential_fails_before_request:
  assumes "GEMINI_API_KEY w = None \<or> GEMINI_API_KEY w = Some []"
  shows "searchProduct backend q w = (Inl missing_key, w)
       \<and> generateScript JSON_parse backend info lang w = (Inl missing_key, w)
       \<and> generateAudio backend txt lang' w = (Inl missing_key, w)
       \<and> generateVisual backend prompt w = (Inl missing_key, w)"
  using getAI_missing [OF assms]
  by (simp add: searchProduct_def generateScript_def generateAudio_def generateVisual_def)

theorem missing_credential_witness:
  "(GEMINI_API_KEY no_key_world = None \<or> GEMINI_API_KEY no_key_world = Some [])
   \<and> searchProduct widget_backend ''Test Widget'' no_key_world = (Inl missing_key, no_key_world)
   \<and> generateScript JSON_parse_plain widget_backend ''Widget is great'' English no_key_world
        = (Inl missing_key, no_key_world)
   \<and> generateAudio widget_backend ''Amazing!'' English no_key_world = (Inl missing_key, no_key_world)
   \<and> generateVisual widget_backend ''Test Widget'' no_key_world = (Inl missing_key, no_key_world)
   \<and> requests no_key_world = []"
  using missing_credential_fails_before_request
          [of no_key_world widget_backend "''Test Widget''" JSON_parse_plain "''Widget is great''"
              English "''Amazing!''" English "''Test Widget''"]
  by (simp add: no_key_world_def fresh_world_def)

text \<open>With a credential, the same calls do send their request.\<close>

lemma credential_present_sends_request:
  assumes "getAI w = Inr ai"
  shows "requests (snd (searchProduct backend q w)) = requests w @ [searchRequest q]"
    and "requests (snd (generateScript JSON_parse backend info lang w))
           = requests w @ [scriptRequest info lang]"
    and "requests (snd (generateVisual backend prompt w)) = requests w @ [visualRequest prompt]"
  using assms
  by (auto simp: searchProduct_def generateScript_def generateVisual_def generateContent_def
           split: sum.splits option.splits prod.splits)

lemma two_field_payload:
  "JSON_parse_plain two_field_text
     = Inr (JObj [(''hook'', JStr ''Amazing!''), (''body'', JStr ''It works.'')])"
  by (simp add: two_field_text_def JSON_parse_plain_def skip_ws_def is_ws_def literal_def)

lemma widget_payload: "JSON_parse_plain widget_text = Inr widget_script"
  by (simp add: widget_text_def JSON_parse_plain_def skip_ws_def is_ws_def literal_def
        widget_script_def)

lemma getAI_fresh [simp]: "getAI fresh_world = Inr ''key''"
  by (simp add: getAI_def fresh_world_def)

text \<open>
  Claim C6 as stated fails: a payload that is valid JSON and has no field \<^verbatim>\<open>cta\<close> is
  returned by \<^verbatim>\<open>generateScript\<close>, not rejected.
\<close>

theorem generateScript_returns_two_fields:
  "fst (generateScript JSON_parse_plain two_field_backend ''Widget is great'' English fresh_world)
     = Inr (JObj [(''hook'', JStr ''Amazing!''), (''body'', JStr ''It works.'')])
   \<and> property (JObj [(''hook'', JStr ''Amazing!''), (''body'', JStr ''It works.'')]) ''cta'' = None"
  by (simp add: generateScript_def generateContent_def two_field_backend_def scriptRequest_def
        text_response_def two_field_payload)

text \<open>
  Claim C6, as amended. With a credential configured, \<^verbatim>\<open>generateScript\<close> fails exactly
  when the backend call is rejected (with that rejection) or \<^verbatim>\<open>JSON.parse\<close> throws on the
  returned text (with the parser's error; an absent text is parsed as \<^verbatim>\<open>undefined\<close>).
  Every payload that \<^verbatim>\<open>JSON.parse\<close> accepts is returned as parsed, whatever fields it has.
\<close>

theorem generateScript_returns_parse:
  assumes "getAI w = Inr ai"
  shows "fst (generateScript JSON_parse backend info lang w)
           = (case backend ai (scriptRequest info lang) of
                Inl e \<Rightarrow> Inl e
              | Inr response \<Rightarrow>
                  JSON_parse (case response_text response of
                                None \<Rightarrow> ''undefined'' | Some t \<Rightarrow> t))"
  using assms by (simp add: generateScript_def generateContent_def split: sum.splits)

theorem generateScript_returns_parse_witness:
  "getAI fresh_world = Inr ''key''
   \<and> two_field_backend ''key'' (scriptRequest ''Widget is great'' English)
        = Inr (text_response two_field_text)
   \<and> fst (generateScript JSON_parse_plain two_field_backend ''Widget is great'' English fresh_world)
        = Inr (JObj [(''hook'', JStr ''Amazing!''), (''body'', JStr ''It works.'')])"
  using generateScript_returns_parse
          [of fresh_world "''key''" JSON_parse_plain two_field_backend "''Widget is great''" English]
  by (simp add: two_field_backend_def scriptRequest_def text_response_def two_field_payload)

section \<open>Properties of the handlers\<close>

lemma getAI_requests [simp]: "getAI (w\<lparr>requests := r\<rparr>) = getAI w"
  by (simp add: getAI_def)

lemma getAI_objectURLs [simp]: "getAI (w\<lparr>objectURLs := r\<rparr>) = getAI w"
  by (simp add: getAI_def)

lemma getAI_created [simp]: "getAI (w\<lparr>created := r\<rparr>) = getAI w"
  by (simp add: getAI_def)

lemma fresh_world_fields [simp]:
  "requests fresh_world = []" "objectURLs fresh_world = []" "created fresh_world = 0"
  "shorts_ai_state fresh_world = None" "isYoutubeConnected_item fresh_world = None"
  by (simp_all add: fresh_world_def)

lemma search_state_fields [simp]:
  "query search_state = ''Test Widget''" "step search_state = step_search"
  "script search_state = None" "language search_state = English"
  "audioUrl search_state = None" "imageUrl search_state = None"
  by (simp_all add: search_state_def initial_state_def)

lemma handleSearch_catch_fields:
  "step (handleSearch_catch e s) = step s"
  "script (handleSearch_catch e s) = script s"
  "productInfo (handleSearch_catch e s) = productInfo s"
  "\<not> loading (handleSearch_catch e s)"
  "\<exists>m. error (handleSearch_catch e s) = Some m \<and> m \<noteq> []"
  by (simp_all add: handleSearch_catch_def)

text \<open>
  Claim C4. When \<^verbatim>\<open>handleSearch\<close> runs with a query and the lookup throws, or yields
  no text or an empty one, or the script generation throws or yields a falsy value, then
  the stage and the script are what they were (\<^verbatim>\<open>'search'\<close> and \<^verbatim>\<open>null\<close> when the
  transition starts there), a non-empty error message is recorded and \<^verbatim>\<open>loading\<close> is
  cleared; when the lookup had succeeded, \<^verbatim>\<open>productInfo\<close> holds the looked-up text.
\<close>

theorem handleSearch_aborts:
  assumes q: "query s \<noteq> []"
    and lookup: "searchProduct backend (query s) w = (r1, w1)"
    and failure:
      "case r1 of
         Inl e \<Rightarrow> True
       | Inr None \<Rightarrow> True
       | Inr (Some info) \<Rightarrow>
           info = [] \<or>
           (case fst (generateScript JSON_parse backend info (language s) w1) of
              Inl e \<Rightarrow> True
            | Inr generatedScript \<Rightarrow> \<not> truthy generatedScript)"
  shows "step (fst (handleSearch JSON_parse backend (s, w))) = step s
       \<and> script (fst (handleSearch JSON_parse backend (s, w))) = script s
       \<and> (\<exists>m. error (fst (handleSearch JSON_parse backend (s, w))) = Some m \<and> m \<noteq> [])
       \<and> \<not> loading (fst (handleSearch JSON_parse backend (s, w)))
       \<and> (\<forall>info. r1 = Inr (Some info) \<and> info \<noteq> []
             \<longrightarrow> productInfo (fst (handleSearch JSON_parse backend (s, w))) = info)"
proof -
  let ?s0 = "s\<lparr>loading := True, error := None\<rparr>"
  have start: "handleSearch_start s = Some ?s0"
    using q by (simp add: handleSearch_start_def)
  show ?thesis
  proof (cases r1)
    case (Inl e)
    then show ?thesis
      using start lookup
      by (simp add: handleSearch_def handleSearch_info_def handleSearch_catch_fields)
  next
    case (Inr found)
    show ?thesis
    proof (cases "found = None \<or> found = Some []")
      case True
      then show ?thesis
        using start lookup Inr
        by (auto simp: handleSearch_def handleSearch_info_def handleSearch_catch_fields)
    next
      case False
      then obtain info where info: "found = Some info" "info \<noteq> []" by auto
      obtain r2 w2 where gen: "generateScript JSON_parse backend info (language s) w1 = (r2, w2)"
        by (cases "generateScript JSON_parse backend info (language s) w1")
      have bad: "case r2 of Inl e \<Rightarrow> True | Inr generatedScript \<Rightarrow> \<not> truthy generatedScript"
        using failure Inr info gen by simp
      have run: "fst (handleSearch JSON_parse backend (s, w))
                   = handleSearch_script r2 (?s0\<lparr>productInfo := info\<rparr>)"
        using start lookup Inr info gen
        by (simp add: handleSearch_def handleSearch_info_def)
      show ?thesis
        using bad Inr info
        by (cases r2) (simp_all add: run handleSearch_script_def handleSearch_catch_fields)
    qed
  qed
qed


lemma searchProduct_fresh:
  "searchProduct script_failing_backend ''Test Widget'' fresh_world
     = (Inr (Some ''Widget is great''),
        fresh_world\<lparr>requests := [searchRequest ''Test Widget'']\<rparr>)"
  by (simp add: searchProduct_def generateContent_def script_failing_backend_def
        widget_backend_def searchRequest_def text_response_def)

theorem handleSearch_aborts_witness:
  "query search_state \<noteq> []
   \<and> searchProduct script_failing_backend (query search_state) fresh_world
        = (Inr (Some ''Widget is great''),
           fresh_world\<lparr>requests := [searchRequest ''Test Widget'']\<rparr>)
   \<and> fst (generateScript JSON_parse_plain script_failing_backend ''Widget is great'' English
             (fresh_world\<lparr>requests := [searchRequest ''Test Widget'']\<rparr>))
        = Inl (JsError ''ApiError'' ''quota exceeded'')
   \<and> step (fst (handleSearch JSON_parse_plain script_failing_backend (search_state, fresh_world)))
        = step_search
   \<and> script (fst (handleSearch JSON_parse_plain script_failing_backend (search_state, fresh_world)))
        = None
   \<and> error (fst (handleSearch JSON_parse_plain script_failing_backend (search_state, fresh_world)))
        \<noteq> None
   \<and> productInfo (fst (handleSearch JSON_parse_plain script_failing_backend
          (search_state, fresh_world))) = ''Widget is great''"
proof -
  have gen: "fst (generateScript JSON_parse_plain script_failing_backend ''Widget is great'' English
             (fresh_world\<lparr>requests := [searchRequest ''Test Widget'']\<rparr>))
        = Inl (JsError ''ApiError'' ''quota exceeded'')"
    by (simp add: generateScript_def generateContent_def script_failing_backend_def
          scriptRequest_def)
  show ?thesis
    using handleSearch_aborts
            [of search_state script_failing_backend fresh_world "Inr (Some ''Widget is great'')"
                "fresh_world\<lparr>requests := [searchRequest ''Test Widget'']\<rparr>" JSON_parse_plain]
    by (auto simp: searchProduct_fresh gen)
qed
lemma review_state_fields [simp]:
  "query review_state = ''Test Widget''" "step review_state = step_script"
  "script review_state = Some widget_script" "language review_state = English"
  "audioUrl review_state = None" "imageUrl review_state = None"
  "error review_state = None" "loading review_state = False"
  by (simp_all add: review_state_def initial_state_def)

lemma present_widget [simp]: "present (Some widget_script)"
  by (simp add: present_def widget_script_def)

lemma fullText_widget [simp]: "fullText widget_script = ''Amazing!. It works.. Buy now!''"
  by (simp add: fullText_def widget_script_def String_js_def)

lemma handleGenerateAssets_unfold:
  assumes "present (script s)"
    and "generateAudio backend (fullText (the (script s))) (language s) w = (ra, w1)"
    and "generateVisual backend (query s) w1 = (ri, w2)"
  shows "handleGenerateAssets backend (s, w)
           = (handleGenerateAssets_settled ra ri (s\<lparr>loading := True\<rparr>), w2)"
  using assms by (simp add: handleGenerateAssets_def handleGenerateAssets_start_def)

text \<open>
  A half-failed asset transition sets nothing: when one of \<^verbatim>\<open>generateAudio\<close> and
  \<^verbatim>\<open>generateVisual\<close> throws and the other returns, the state afterwards is the state
  before with \<^verbatim>\<open>loading\<close> cleared, so the stage is unchanged and the value the
  successful generator returned is not kept.
\<close>

lemma assets_one_failure_unchanged:
  assumes "present (script s)"
    and "generateAudio backend (fullText (the (script s))) (language s) w = (ra, w1)"
    and "generateVisual backend (query s) w1 = (ri, w2)"
    and "(isl ra \<and> \<not> isl ri) \<or> (\<not> isl ra \<and> isl ri)"
  shows "fst (handleGenerateAssets backend (s, w)) = s\<lparr>loading := False\<rparr>"
  using assms(4)
  by (auto simp: handleGenerateAssets_unfold [OF assms(1-3)] handleGenerateAssets_settled_def
        promise_all_def isl_def split: sum.splits)

text \<open>
  Entered with no artifact bound, as in every run in which no search overlaps another
  handler, such a transition therefore ends with neither artifact set.
\<close>

lemma assets_one_failure_discards:
  assumes "present (script s)"
    and "generateAudio backend (fullText (the (script s))) (language s) w = (ra, w1)"
    and "generateVisual backend (query s) w1 = (ri, w2)"
    and "(isl ra \<and> \<not> isl ri) \<or> (\<not> isl ra \<and> isl ri)"
    and "audioUrl s = None" and "imageUrl s = None"
  shows "audioUrl (fst (handleGenerateAssets backend (s, w))) = None
       \<and> imageUrl (fst (handleGenerateAssets backend (s, w))) = None
       \<and> step (fst (handleGenerateAssets backend (s, w))) = step s
       \<and> fst (handleGenerateAssets backend (s, w)) = s\<lparr>loading := False\<rparr>"
  using assms(4-6)
  by (auto simp: handleGenerateAssets_unfold [OF assms(1-3)] handleGenerateAssets_settled_def
        promise_all_def isl_def split: sum.splits)

lemma generateAudio_image_failing:
  "generateAudio image_failing_backend ''Amazing!. It works.. Buy now!'' English fresh_world
     = (Inr (Some (blob_url 0)),
        fresh_world\<lparr>requests := [audioRequest ''Amazing!. It works.. Buy now!'' English],
          objectURLs := [(0, the (wavBlob [1, 2]))], created := 1\<rparr>)"
  apply (simp add: generateAudio_def generateContent_def image_failing_backend_def
        widget_backend_def audioRequest_def inline_response_def first_inlineData_def)
  apply (simp add: atob_def is_space_def strip_padding_def b64_alphabet_def createObjectURL_def wavBlob_eq)
  done

lemma generateAudio_two_bytes:
  assumes "getAI w = Inr ai"
    and "backend ai (audioRequest txt lang) = Inr (inline_response ''AQI='')"
  shows "generateAudio backend txt lang w
     = (Inr (Some (blob_url (created w))),
        w\<lparr>requests := requests w @ [audioRequest txt lang],
          objectURLs := objectURLs w @ [(created w, the (wavBlob [1, 2]))],
          created := Suc (created w)\<rparr>)"
  using assms
  apply (simp add: generateAudio_def generateContent_def inline_response_def first_inlineData_def)
  apply (simp add: atob_def is_space_def strip_padding_def b64_alphabet_def createObjectURL_def
        wavBlob_eq)
  done

lemma generateVisual_image_failing:
  "generateVisual image_failing_backend ''Test Widget'' w
     = (if getAI w = Inl missing_key then (Inl missing_key, w)
        else (Inl (JsError ''ApiError'' ''image generation failed''),
              w\<lparr>requests := requests w @ [visualRequest ''Test Widget'']\<rparr>))"
  by (auto simp: generateVisual_def generateContent_def image_failing_backend_def
        visualRequest_def getAI_def split: option.splits)

lemma assets_one_failure_discards_sample:
  "present (script review_state)
   \<and> fst (generateAudio image_failing_backend (fullText (the (script review_state)))
             (language review_state) fresh_world) = Inr (Some (blob_url 0))
   \<and> fst (generateVisual image_failing_backend (query review_state)
             (snd (generateAudio image_failing_backend (fullText (the (script review_state)))
                    (language review_state) fresh_world)))
        = Inl (JsError ''ApiError'' ''image generation failed'')
   \<and> audioUrl review_state = None \<and> imageUrl review_state = None
   \<and> audioUrl (fst (handleGenerateAssets image_failing_backend (review_state, fresh_world))) = None
   \<and> imageUrl (fst (handleGenerateAssets image_failing_backend (review_state, fresh_world))) = None
   \<and> step (fst (handleGenerateAssets image_failing_backend (review_state, fresh_world)))
        = step_script"
  using assets_one_failure_discards
          [of review_state image_failing_backend fresh_world "Inr (Some (blob_url 0))"
              "fresh_world\<lparr>requests := [audioRequest ''Amazing!. It works.. Buy now!'' English],
                 objectURLs := [(0, the (wavBlob [1, 2]))], created := 1\<rparr>"
              "Inl (JsError ''ApiError'' ''image generation failed'')"
              "fresh_world\<lparr>requests := [audioRequest ''Amazing!. It works.. Buy now!'' English],
                 objectURLs := [(0, the (wavBlob [1, 2]))], created := 1\<rparr>
                 \<lparr>requests := [audioRequest ''Amazing!. It works.. Buy now!'' English]
                    @ [visualRequest ''Test Widget'']\<rparr>"]
  by (simp add: generateAudio_image_failing generateVisual_image_failing missing_key_def)



text \<open>
  Claim C9. \<^verbatim>\<open>handleDownloadAll\<close> puts into the archive exactly the artifacts that are
  present, in the order image, audio, script, and an absent artifact never makes it fail
  (it fails only when fetching a present artifact fails). With no image and no audio and a
  script of three string fields, the archive has the single entry \<^verbatim>\<open>script.txt\<close>, whose
  text is \<^verbatim>\<open>HOOK: \<close>hook, an empty line, \<^verbatim>\<open>BODY: \<close>body, an empty line,
  \<^verbatim>\<open>CTA: \<close>cta.
\<close>

theorem bundle_omits_absent:
  "(imageUrl s = None \<and> audioUrl s = None \<and> script s = Some sc \<and> truthy sc
      \<and> property sc ''hook'' = Some (JStr h) \<and> property sc ''body'' = Some (JStr b)
      \<and> property sc ''cta'' = Some (JStr c)
    \<longrightarrow> handleDownloadAll fetch s
          = Inr [(''script.txt'',
                  Plain (''HOOK: '' @ h @ [CHR 0x0A, CHR 0x0A] @ ''BODY: '' @ b
                         @ [CHR 0x0A, CHR 0x0A] @ ''CTA: '' @ c))])
   \<and> (handleDownloadAll fetch s = Inr entries
    \<longrightarrow> map fst entries
          = (if imageUrl s = None then [] else [''visual.png''])
            @ (if audioUrl s = None then [] else [''audio.wav''])
            @ (if present (script s) then [''script.txt''] else []))
   \<and> ((\<forall>u. imageUrl s = Some u \<or> audioUrl s = Some u \<longrightarrow> \<not> isl (fetch u))
    \<longrightarrow> \<not> isl (handleDownloadAll fetch s))"
proof (intro conjI impI)
  assume "imageUrl s = None \<and> audioUrl s = None \<and> script s = Some sc \<and> truthy sc
      \<and> property sc ''hook'' = Some (JStr h) \<and> property sc ''body'' = Some (JStr b)
      \<and> property sc ''cta'' = Some (JStr c)"
  then show "handleDownloadAll fetch s
          = Inr [(''script.txt'',
                  Plain (''HOOK: '' @ h @ [CHR 0x0A, CHR 0x0A] @ ''BODY: '' @ b
                         @ [CHR 0x0A, CHR 0x0A] @ ''CTA: '' @ c))]"
    by (simp add: handleDownloadAll_def present_def String_js_def)
next
  assume "handleDownloadAll fetch s = Inr entries"
  then show "map fst entries
          = (if imageUrl s = None then [] else [''visual.png''])
            @ (if audioUrl s = None then [] else [''audio.wav''])
            @ (if present (script s) then [''script.txt''] else [])"
    by (auto simp: handleDownloadAll_def split: option.splits sum.splits if_splits)
next
  assume "\<forall>u. imageUrl s = Some u \<or> audioUrl s = Some u \<longrightarrow> \<not> isl (fetch u)"
  then show "\<not> isl (handleDownloadAll fetch s)"
    by (auto simp: handleDownloadAll_def isl_def split: option.splits sum.splits)
qed

theorem bundle_omits_absent_witness:
  "imageUrl review_state = None \<and> audioUrl review_state = None
   \<and> script review_state = Some widget_script \<and> truthy widget_script
   \<and> property widget_script ''hook'' = Some (JStr ''Amazing!'')
   \<and> property widget_script ''body'' = Some (JStr ''It works.'')
   \<and> property widget_script ''cta'' = Some (JStr ''Buy now!'')
   \<and> handleDownloadAll (\<lambda>u. Inl (JsError ''TypeError'' ''Failed to fetch'')) review_state
        = Inr [(''script.txt'',
                Plain (''HOOK: Amazing!'' @ [CHR 0x0A, CHR 0x0A] @ ''BODY: It works.''
                       @ [CHR 0x0A, CHR 0x0A] @ ''CTA: Buy now!''))]
   \<and> map fst [(''script.txt'',
                Plain (''HOOK: Amazing!'' @ [CHR 0x0A, CHR 0x0A] @ ''BODY: It works.''
                       @ [CHR 0x0A, CHR 0x0A] @ ''CTA: Buy now!''))] = [''script.txt'']
   \<and> present (script review_state)
   \<and> \<not> isl (handleDownloadAll (\<lambda>u. Inl (JsError ''TypeError'' ''Failed to fetch'')) review_state)"
  using bundle_omits_absent
          [of review_state widget_script "''Amazing!''" "''It works.''" "''Buy now!''"
              "\<lambda>u. Inl (JsError ''TypeError'' ''Failed to fetch'')"
              "[(''script.txt'',
                Plain (''HOOK: Amazing!'' @ [CHR 0x0A, CHR 0x0A] @ ''BODY: It works.''
                       @ [CHR 0x0A, CHR 0x0A] @ ''CTA: Buy now!''))]"]
  by (simp add: widget_script_def present_def)
text \<open>
  Claim C5 as stated fails for the field \<^verbatim>\<open>language\<close>: a reset from the script review
  of a run in Hindi leaves the language Hindi, which is not its initial value.
\<close>

theorem clearState_keeps_language:
  "step (review_state\<lparr>language := Hindi\<rparr>) = step_script
   \<and> language (fst (clearState (review_state\<lparr>language := Hindi\<rparr>, fresh_world))) = Hindi
   \<and> language (initial_state fresh_world) = English"
  by (simp add: clearState_def clearState_setters_def initial_state_def)

text \<open>
  Claim C5, as amended. From every state, \<^verbatim>\<open>clearState\<close> removes the snapshot from the
  local store and sets query, stage, productInfo, script and both artifacts to their
  initial values; it leaves \<^verbatim>\<open>language\<close> and the error message as they are. In the
  effects that follow, every object URL the state held is revoked, and the persistence
  effect writes a snapshot of the reset fields if one of the four persisted fields
  changed.
\<close>

theorem clearState_resets:
  "case clearState (s, w) of (s', w') \<Rightarrow>
     query s' = [] \<and> step s' = step_search \<and> productInfo s' = [] \<and> script s' = None
     \<and> audioUrl s' = None \<and> imageUrl s' = None
     \<and> language s' = language s \<and> error s' = error s
     \<and> shorts_ai_state w' = None
     \<and> (\<forall>n. audioUrl s = Some (blob_url n) \<or> imageUrl s = Some (blob_url n)
           \<longrightarrow> n \<notin> fst ` set (objectURLs (run_effects s s' w')))
     \<and> shorts_ai_state (run_effects s s' w')
         = (if (query s, step s, productInfo s, script s) = ([], step_search, [], None) then None
            else Some (Saved \<lparr>saved_query = [], saved_step = step_search,
                             saved_productInfo = [], saved_script = None\<rparr>))"
  by (auto simp: clearState_def clearState_setters_def run_effects_def cleanup_urls_def
        persist_def is_blob_def revokeObjectURL_def Let_def
      split: option.splits url.splits)

text \<open>The sample run of \<^verbatim>\<open>handleGenerateAssets\<close>, evaluated.\<close>

lemma generateAudio_widget:
  "generateAudio widget_backend ''Amazing!. It works.. Buy now!'' English fresh_world
     = (Inr (Some (blob_url 0)),
        fresh_world\<lparr>requests := [audioRequest ''Amazing!. It works.. Buy now!'' English],
          objectURLs := [(0, the (wavBlob [1, 2]))], created := 1\<rparr>)"
  apply (simp add: generateAudio_def generateContent_def
        widget_backend_def audioRequest_def inline_response_def first_inlineData_def)
  apply (simp add: atob_def is_space_def strip_padding_def b64_alphabet_def createObjectURL_def wavBlob_eq)
  done

lemma generateVisual_widget:
  "getAI w = Inr ai \<Longrightarrow>
   generateVisual widget_backend q w
     = (Inr (Some (data_url ''data:image/png;base64,iVBORw0KGgo='')),
        w\<lparr>requests := requests w @ [visualRequest q]\<rparr>)"
  by (simp add: generateVisual_def generateContent_def widget_backend_def visualRequest_def
        inline_response_def first_parts_def)

lemma preview_sample:
  "preview_state = review_state\<lparr>audioUrl := Some (blob_url 0),
      imageUrl := Some (data_url ''data:image/png;base64,iVBORw0KGgo=''),
      step := step_preview, loading := False\<rparr>"
  "preview_world = fresh_world\<lparr>requests := [audioRequest ''Amazing!. It works.. Buy now!'' English,
        visualRequest ''Test Widget''],
      objectURLs := [(0, the (wavBlob [1, 2]))], created := 1\<rparr>"
  by (simp_all add: preview_state_def preview_world_def handleGenerateAssets_def
        handleGenerateAssets_start_def generateAudio_widget
        generateVisual_widget [of _ "''key''"]
        handleGenerateAssets_settled_def promise_all_def)

theorem clearState_resets_witness:
  "audioUrl preview_state = Some (blob_url 0)
   \<and> objectURLs preview_world = [(0, the (wavBlob [1, 2]))]
   \<and> (case clearState (preview_state, preview_world) of (s', w') \<Rightarrow>
        query s' = [] \<and> step s' = step_search \<and> script s' = None \<and> audioUrl s' = None
        \<and> imageUrl s' = None \<and> shorts_ai_state w' = None
        \<and> 0 \<notin> fst ` set (objectURLs (run_effects preview_state s' w')))"
  using clearState_resets [of preview_state preview_world]
  by (auto simp: preview_sample split: prod.splits)

section \<open>Properties of runs\<close>

lemma fresh_app_sample [simp]:
  "ui fresh_app = initial_state fresh_world" "tasks fresh_app = []" "mounted fresh_app"
  by (simp_all add: fresh_app_def mount_def restore_def Let_def)

lemma initial_fresh [simp]:
  "initial_state fresh_world =
     \<lparr>query = [], loading = False, step = step_search, language = English, productInfo = [],
      script = None, audioUrl = None, imageUrl = None, error = None, isYoutubeConnected = False\<rparr>"
  by (simp add: initial_state_def)

text \<open>
  Claim C8 as stated fails: the message moves a run at the stage \<^verbatim>\<open>'search'\<close> into
  \<^verbatim>\<open>'preview'\<close>, and after a reset a second message is handled like the first.
\<close>

theorem message_moves_search_to_preview:
  "step (ui fresh_app) = step_search
   \<and> map_option (\<lambda>a. step (ui a)) (fire (Message (Some ''YOUTUBE_AUTH_SUCCESS'')) fresh_app)
       = Some step_preview
   \<and> map_option (\<lambda>a. step (ui a))
       (run [Message (Some ''YOUTUBE_AUTH_SUCCESS''), ClickDiscard] fresh_app) = Some step_search
   \<and> map_option (\<lambda>a. step (ui a))
       (run [Message (Some ''YOUTUBE_AUTH_SUCCESS''), ClickDiscard,
             Message (Some ''YOUTUBE_AUTH_SUCCESS'')] fresh_app) = Some step_preview"
  by (simp add: handleMessage_def clearState_setters_def)

text \<open>
  Claim C8, as amended. While the component is mounted, every message whose type is
  \<^verbatim>\<open>YOUTUBE_AUTH_SUCCESS\<close> is handled and sets the connection flag (whose effect
  stores \<^verbatim>\<open>'true'\<close> when the flag changes); the listener stays registered after the
  delivery and no task is touched. A message of another type changes nothing.
\<close>

theorem message_sets_connection_flag:
  assumes "mounted a"
  shows "(\<exists>a'. fire (Message (Some ''YOUTUBE_AUTH_SUCCESS'')) a = Some a'
            \<and> isYoutubeConnected (ui a') \<and> mounted a' \<and> tasks a' = tasks a)
       \<and> (t \<noteq> Some ''YOUTUBE_AUTH_SUCCESS'' \<longrightarrow> fire (Message t) a = Some a)
       \<and> (\<not> isYoutubeConnected (ui a) \<longrightarrow>
            isYoutubeConnected_item
              (run_effects (ui a) (handleMessage (Some ''YOUTUBE_AUTH_SUCCESS'') (ui a)) w)
              = Some ''true'')"
  using assms
  by (simp add: handleMessage_def run_effects_def persist_def Let_def)

theorem message_sets_connection_flag_witness:
  "mounted fresh_app \<and> \<not> isYoutubeConnected (ui fresh_app)
   \<and> (\<exists>a'. fire (Message (Some ''YOUTUBE_AUTH_SUCCESS'')) fresh_app = Some a'
            \<and> isYoutubeConnected (ui a') \<and> mounted a')
   \<and> fire (Message (Some ''OTHER'')) fresh_app = Some fresh_app
   \<and> isYoutubeConnected_item
        (run_effects (ui fresh_app) (handleMessage (Some ''YOUTUBE_AUTH_SUCCESS'') (ui fresh_app))
           fresh_world) = Some ''true''"
  using message_sets_connection_flag [of fresh_app "Some ''OTHER''" fresh_world]
  by simp

text \<open>
  Claim C3 fails on the code. Enter in the search form starts \<^verbatim>\<open>handleSearch\<close> also
  while \<^verbatim>\<open>loading\<close> is set. In the run \<open>double_enter_run\<close> the second search settles
  after the assets have been bound: the stage goes back to \<^verbatim>\<open>'script'\<close> with both
  artifacts still set.
\<close>

lemma truthy_widget: "truthy widget_script"
  by (simp add: widget_script_def)

theorem double_enter_leaves_artifacts_at_script:
  "map_option (\<lambda>a. (step (ui a), audioUrl (ui a), imageUrl (ui a), tasks a))
     (run double_enter_run fresh_app)
   = Some (step_script, Some (blob_url 0),
           Some (data_url ''data:image/png;base64,iVBORw0KGgo=''), [Settled, Settled, Settled])"
  by (simp add: double_enter_run_def handleSearch_start_def start_search_def awaiting_def
        handleSearch_info_def handleSearch_script_def handleGenerateAssets_start_def
        handleGenerateAssets_settled_def promise_all_def present_def
        searchProduct_def generateScript_def generateContent_def widget_backend_def
        searchRequest_def scriptRequest_def text_response_def widget_payload
        generateAudio_widget generateVisual_widget [of _ "''key''"] truthy_widget)

lemma run_append:
  "run (es @ es') a = (case run es a of None \<Rightarrow> None | Some b \<Rightarrow> run es' b)"
  by (induction es arbitrary: a) (simp_all split: option.splits)

lemma double_enter_run_result:
  "run double_enter_run fresh_app =
     Some \<lparr>ui = \<lparr>query = ''Test Widget'', loading = False, step = step_script,
                   language = English, productInfo = ''Widget is great'',
                   script = Some widget_script, audioUrl = Some (blob_url 0),
                   imageUrl = Some (data_url ''data:image/png;base64,iVBORw0KGgo=''),
                   error = None, isYoutubeConnected = False\<rparr>,
            tasks = [Settled, Settled, Settled], mounted = True\<rparr>"
  by (simp add: double_enter_run_def handleSearch_start_def start_search_def
        awaiting_def handleSearch_info_def handleSearch_script_def handleGenerateAssets_start_def
        handleGenerateAssets_settled_def promise_all_def present_def
        searchProduct_def generateScript_def generateContent_def widget_backend_def
        searchRequest_def scriptRequest_def text_response_def widget_payload
        generateAudio_widget generateVisual_widget [of _ "''key''"] truthy_widget fresh_app_def
        mount_def restore_def Let_def)

lemma stale_state_eq:
  "stale_state =
     \<lparr>query = ''Test Widget'', loading = False, step = step_script, language = English,
      productInfo = ''Widget is great'', script = Some widget_script,
      audioUrl = Some (blob_url 0),
      imageUrl = Some (data_url ''data:image/png;base64,iVBORw0KGgo=''),
      error = None, isYoutubeConnected = False\<rparr>"
  by (simp add: stale_state_def double_enter_run_result)

lemma getAI_preview_world [simp]: "getAI preview_world = Inr ''key''"
  by (simp add: preview_sample)

lemma generateAudio_stale:
  "generateAudio image_failing_backend ''Amazing!. It works.. Buy now!'' English preview_world
     = (Inr (Some (blob_url 1)),
        preview_world\<lparr>requests := requests preview_world
            @ [audioRequest ''Amazing!. It works.. Buy now!'' English],
          objectURLs := objectURLs preview_world @ [(1, the (wavBlob [1, 2]))],
          created := 2\<rparr>)"
proof -
  have c: "created preview_world = 1" by (simp add: preview_sample)
  have b: "image_failing_backend ''key'' (audioRequest ''Amazing!. It works.. Buy now!'' English)
             = Inr (inline_response ''AQI='')"
    by (simp add: image_failing_backend_def widget_backend_def audioRequest_def)
  show ?thesis
    using generateAudio_two_bytes
            [of preview_world "''key''" image_failing_backend
                "''Amazing!. It works.. Buy now!''" English, OF getAI_preview_world b]
    by (simp add: c)
qed

text \<open>
  Claim C2 fails on the code, through the defect of claim C3. The run \<open>double_enter_run\<close>
  ends at the stage \<^verbatim>\<open>'script'\<close> with both artifacts of the earlier preview still
  bound and the assets button enabled. A click there, with \<^verbatim>\<open>generateAudio\<close> returning
  and \<^verbatim>\<open>generateVisual\<close> rejected, leaves the stage unchanged and discards the new
  audio URL, but both artifacts are set afterwards: the \<^verbatim>\<open>catch\<close> block clears
  nothing.
\<close>

theorem half_failed_assets_keep_stale_artifacts:
  "step stale_state = step_script \<and> present (script stale_state) \<and> \<not> loading stale_state
   \<and> fst (generateAudio image_failing_backend (fullText (the (script stale_state)))
             (language stale_state) preview_world) = Inr (Some (blob_url 1))
   \<and> fst (generateVisual image_failing_backend (query stale_state)
             (snd (generateAudio image_failing_backend (fullText (the (script stale_state)))
                     (language stale_state) preview_world)))
        = Inl (JsError ''ApiError'' ''image generation failed'')
   \<and> step (fst (handleGenerateAssets image_failing_backend (stale_state, preview_world)))
        = step_script
   \<and> audioUrl (fst (handleGenerateAssets image_failing_backend (stale_state, preview_world)))
        = Some (blob_url 0)
   \<and> imageUrl (fst (handleGenerateAssets image_failing_backend (stale_state, preview_world)))
        = Some (data_url ''data:image/png;base64,iVBORw0KGgo='')
   \<and> map_option (\<lambda>a. (step (ui a), audioUrl (ui a), imageUrl (ui a)))
         (run stale_assets_run fresh_app)
        = Some (step_script, Some (blob_url 0),
                Some (data_url ''data:image/png;base64,iVBORw0KGgo=''))"
  by (simp add: stale_state_eq generateAudio_stale generateVisual_image_failing missing_key_def
        handleGenerateAssets_def handleGenerateAssets_start_def handleGenerateAssets_settled_def
        promise_all_def stale_assets_run_def run_append double_enter_run_result awaiting_def)

text \<open>
  The first half of the invariant holds in every run: no event leaves a script at the
  stage \<^verbatim>\<open>'search'\<close>.
\<close>

lemma no_script_at_search_fire:
  assumes "step (ui a) = step_search \<longrightarrow> script (ui a) = None" and "fire e a = Some a'"
  shows "step (ui a') = step_search \<longrightarrow> script (ui a') = None"
  using assms
  by (cases e)
     (auto simp: start_search_def handleSearch_start_def handleSearch_info_def
        handleSearch_script_def handleSearch_catch_def handleGenerateAssets_start_def
        handleGenerateAssets_settled_def promise_all_def clearState_setters_def
        handleMessage_def
      split: if_splits sum.splits option.splits)

lemma no_script_at_search_run:
  "step (ui a) = step_search \<longrightarrow> script (ui a) = None \<Longrightarrow> run es a = Some a' \<Longrightarrow>
   step (ui a') = step_search \<longrightarrow> script (ui a') = None"
proof (induction es arbitrary: a)
  case Nil
  then show ?case by simp
next
  case (Cons e es)
  then obtain b where b: "fire e a = Some b" "run es b = Some a'"
    by (auto split: option.splits)
  from no_script_at_search_fire [OF Cons.prems(1) b(1)] Cons.IH [OF _ b(2)]
  show ?case by blast
qed

text \<open>
  The second half holds in the runs in which Enter is not pressed while \<^verbatim>\<open>loading\<close>
  is set, the condition the search button puts on a click: there at most one handler is
  in flight, and no artifact is bound before the preview.
\<close>

lemma catch_ui [simp]:
  "step (handleSearch_catch e s) = step s"
  "script (handleSearch_catch e s) = script s"
  "audioUrl (handleSearch_catch e s) = audioUrl s"
  "imageUrl (handleSearch_catch e s) = imageUrl s"
  "loading (handleSearch_catch e s) = False"
  by (simp_all add: handleSearch_catch_def)

lemma in_flight_member:
  "i < length ts \<Longrightarrow> ts ! i \<noteq> Settled \<Longrightarrow> ts ! i \<in> set (in_flight ts)"
  by (simp add: in_flight_def)

lemma in_flight_update:
  assumes "in_flight ts = [t]" and "i < length ts" and "ts ! i \<noteq> Settled"
  shows "in_flight (ts[i := x]) = (if x \<noteq> Settled then [x] else [])"
  using assms unfolding in_flight_def
proof (induction ts arbitrary: i)
  case Nil
  then show ?case by simp
next
  case (Cons u us)
  show ?case
  proof (cases i)
    case 0
    with Cons.prems show ?thesis by (simp split: if_splits)
  next
    case (Suc k)
    with Cons.prems have k: "k < length us" "us ! k \<noteq> Settled" by simp_all
    then have "us ! k \<in> set (filter (\<lambda>t. t \<noteq> Settled) us)" by simp
    then have ne: "filter (\<lambda>t. t \<noteq> Settled) us \<noteq> []" by (metis empty_iff empty_set)
    have u: "u = Settled"
    proof (rule ccontr)
      assume "u \<noteq> Settled"
      with Cons.prems(1) have "filter (\<lambda>t. t \<noteq> Settled) us = []" by simp
      with ne show False by simp
    qed
    with Cons.prems(1) have "filter (\<lambda>t. t \<noteq> Settled) us = [t]" by simp
    from Cons.IH [OF this k] Suc u show ?thesis by simp
  qed
qed

lemma in_flight_single:
  assumes "in_flight ts = [t]" and "i < length ts" and "ts ! i \<noteq> Settled"
  shows "ts ! i = t"
  using in_flight_member [OF assms(2,3)] assms(1) by simp

lemma in_flight_start: "in_flight (ts @ [t]) = in_flight ts @ (if t \<noteq> Settled then [t] else [])"
  by (simp add: in_flight_def)

lemma flight_ok_fields:
  "loading s' = loading s \<Longrightarrow> audioUrl s' = audioUrl s \<Longrightarrow> imageUrl s' = imageUrl s \<Longrightarrow>
   flight_ok ts s' = flight_ok ts s"
  by (cases "(ts, s)" rule: flight_ok.cases) simp_all

lemma flight_ok_cleared: "flight_ok ts s \<Longrightarrow> flight_ok ts (clearState_setters s)"
  by (cases "(ts, s)" rule: flight_ok.cases) (simp_all add: clearState_setters_def)

lemma stage_ok_cleared: "stage_ok (clearState_setters s)"
  by (simp add: stage_ok_def clearState_setters_def)

lemma idle_when_not_loading: "flight_ok ts s \<Longrightarrow> \<not> loading s \<Longrightarrow> ts = []"
  by (cases "(ts, s)" rule: flight_ok.cases) simp_all

lemma flight_ok_busy:
  assumes "flight_ok ts s" and "t \<in> set ts"
  shows "ts = [t]" and "loading s" and "t \<noteq> AwaitAssets \<Longrightarrow> audioUrl s = None \<and> imageUrl s = None"
  using assms by (cases "(ts, s)" rule: flight_ok.cases; simp)+

lemma orderly_SetQuery:
  assumes "orderly a" and "fire (SetQuery q) a = Some a'"
  shows "orderly a'"
proof -
  from assms(2) have a': "a' = a\<lparr>ui := (ui a)\<lparr>query := q\<rparr>\<rparr>" by (simp split: if_splits)
  have "flight_ok (in_flight (tasks a)) ((ui a)\<lparr>query := q\<rparr>)
          = flight_ok (in_flight (tasks a)) (ui a)"
    by (rule flight_ok_fields) simp_all
  then show ?thesis using assms(1) by (simp add: a' orderly_def stage_ok_def)
qed

lemma orderly_SetLanguage:
  assumes "orderly a" and "fire (SetLanguage l) a = Some a'"
  shows "orderly a'"
proof -
  from assms(2) have a': "a' = a\<lparr>ui := (ui a)\<lparr>language := l\<rparr>\<rparr>" by (simp split: if_splits)
  have "flight_ok (in_flight (tasks a)) ((ui a)\<lparr>language := l\<rparr>)
          = flight_ok (in_flight (tasks a)) (ui a)"
    by (rule flight_ok_fields) simp_all
  then show ?thesis using assms(1) by (simp add: a' orderly_def stage_ok_def)
qed

lemma orderly_Unmount:
  assumes "orderly a" and "fire Unmount a = Some a'"
  shows "orderly a'"
proof -
  from assms(2) have a': "a' = a\<lparr>mounted := False\<rparr>" by (simp split: if_splits)
  show ?thesis using assms(1) by (simp add: a' orderly_def)
qed

lemma orderly_Message:
  assumes "orderly a" and "fire (Message t) a = Some a'"
  shows "orderly a'"
proof -
  from assms(2) have a': "a' = a\<lparr>ui := handleMessage t (ui a)\<rparr>" by (simp split: if_splits)
  have "stage_ok (handleMessage t (ui a))"
    using assms(1) by (simp add: orderly_def stage_ok_def handleMessage_def)
  moreover have "flight_ok (in_flight (tasks a)) (handleMessage t (ui a))
                   = flight_ok (in_flight (tasks a)) (ui a)"
    by (rule flight_ok_fields) (simp_all add: handleMessage_def)
  ultimately show ?thesis using assms(1) by (simp add: a' orderly_def)
qed

lemma orderly_ClickStartOver:
  assumes "orderly a" and "fire ClickStartOver a = Some a'"
  shows "orderly a'"
proof -
  from assms(2) have a': "a' = a\<lparr>ui := clearState_setters (ui a)\<rparr>" by (simp split: if_splits)
  show ?thesis using assms(1) by (simp add: a' orderly_def flight_ok_cleared stage_ok_cleared)
qed

lemma orderly_ClickDiscard:
  assumes "orderly a" and "fire ClickDiscard a = Some a'"
  shows "orderly a'"
proof -
  from assms(2) have a': "a' = a\<lparr>ui := clearState_setters (ui a)\<rparr>" by (simp split: if_splits)
  show ?thesis using assms(1) by (simp add: a' orderly_def flight_ok_cleared stage_ok_cleared)
qed

lemma orderly_start_search:
  assumes "orderly a" and "step (ui a) = step_search" and "\<not> loading (ui a)"
  shows "orderly (start_search a)"
proof -
  from assms have idle: "in_flight (tasks a) = []"
    by (auto simp: orderly_def intro: idle_when_not_loading)
  from assms(1) have s: "stage_ok (ui a)" by (simp add: orderly_def)
  show ?thesis
  proof (cases "query (ui a) = []")
    case True
    then show ?thesis using assms(1) by (simp add: start_search_def handleSearch_start_def)
  next
    case False
    then show ?thesis using s assms(2) idle
      by (simp add: start_search_def handleSearch_start_def orderly_def stage_ok_def
            in_flight_start)
  qed
qed

lemma orderly_ClickSearch:
  assumes "orderly a" and "fire ClickSearch a = Some a'"
  shows "orderly a'"
proof -
  from assms(2) have "a' = start_search a" "step (ui a) = step_search" "\<not> loading (ui a)"
    by (simp_all split: if_splits)
  then show ?thesis using orderly_start_search [OF assms(1)] by simp
qed

lemma orderly_PressEnter:
  assumes "orderly a" and "fire PressEnter a = Some a'" and "\<not> loading (ui a)"
  shows "orderly a'"
proof -
  from assms(2) have "a' = start_search a" "step (ui a) = step_search"
    by (simp_all split: if_splits)
  then show ?thesis using orderly_start_search [OF assms(1) _ assms(3)] by simp
qed

lemma orderly_ClickGenerateAssets:
  assumes "orderly a" and "fire ClickGenerateAssets a = Some a'"
  shows "orderly a'"
proof -
  from assms(2) have g: "step (ui a) = step_script" "present (script (ui a))" "\<not> loading (ui a)"
    by (simp_all split: if_splits)
  from assms(1) g have idle: "in_flight (tasks a) = []"
    by (auto simp: orderly_def intro: idle_when_not_loading)
  from assms(1) have s: "stage_ok (ui a)" by (simp add: orderly_def)
  from assms(2) g have a': "a' = a\<lparr>ui := (ui a)\<lparr>loading := True\<rparr>, tasks := tasks a @ [AwaitAssets]\<rparr>"
    by (simp add: handleGenerateAssets_start_def split: if_splits)
  show ?thesis using s g(1) idle
    by (simp add: a' orderly_def stage_ok_def in_flight_start)
qed

lemma orderly_LookupSettled:
  assumes "orderly a" and "fire (LookupSettled i r) a = Some a'"
  shows "orderly a'"
proof -
  from assms(2) have i: "i < length (tasks a)" "tasks a ! i = AwaitLookup"
    by (simp_all add: awaiting_def split: if_splits)
  from assms(1) have s: "stage_ok (ui a)" and f: "flight_ok (in_flight (tasks a)) (ui a)"
    by (simp_all add: orderly_def)
  have m: "AwaitLookup \<in> set (in_flight (tasks a))"
    using in_flight_member [of i "tasks a"] i by simp
  note b = flight_ok_busy [OF f m]
  have none: "audioUrl (ui a) = None" "imageUrl (ui a) = None" using b(3) by simp_all
  have upd: "in_flight ((tasks a)[i := x]) = (if x \<noteq> Settled then [x] else [])" for x
    using in_flight_update [OF b(1) i(1)] i(2) by simp
  show ?thesis
  proof (cases "snd (handleSearch_info r (ui a))")
    case None
    then have a': "a' = a\<lparr>ui := fst (handleSearch_info r (ui a)), tasks := (tasks a)[i := Settled]\<rparr>"
      using assms(2) i by (simp add: awaiting_def split: if_splits prod.splits)
    have "stage_ok (fst (handleSearch_info r (ui a)))"
      using s by (simp add: handleSearch_info_def stage_ok_def split: sum.splits)
    then show ?thesis by (simp add: a' orderly_def upd)
  next
    case (Some info)
    then have a': "a' = a\<lparr>ui := fst (handleSearch_info r (ui a)), tasks := (tasks a)[i := AwaitScript]\<rparr>"
      using assms(2) i by (simp add: awaiting_def split: if_splits prod.splits)
    have u: "fst (handleSearch_info r (ui a)) = (ui a)\<lparr>productInfo := info\<rparr>"
      using Some by (auto simp: handleSearch_info_def split: sum.splits if_splits)
    show ?thesis using s b(2) none by (simp add: a' u orderly_def upd stage_ok_def)
  qed
qed

lemma orderly_ScriptSettled:
  assumes "orderly a" and "fire (ScriptSettled i r) a = Some a'"
  shows "orderly a'"
proof -
  from assms(2) have i: "i < length (tasks a)" "tasks a ! i = AwaitScript"
    by (simp_all add: awaiting_def split: if_splits)
  from assms(1) have s: "stage_ok (ui a)" and f: "flight_ok (in_flight (tasks a)) (ui a)"
    by (simp_all add: orderly_def)
  have m: "AwaitScript \<in> set (in_flight (tasks a))"
    using in_flight_member [of i "tasks a"] i by simp
  note b = flight_ok_busy [OF f m]
  have none: "audioUrl (ui a) = None" "imageUrl (ui a) = None" using b(3) by simp_all
  have upd: "in_flight ((tasks a)[i := Settled]) = []"
    using in_flight_update [OF b(1) i(1), of Settled] i(2) by simp
  from assms(2) i have a': "a' = a\<lparr>ui := handleSearch_script r (ui a), tasks := (tasks a)[i := Settled]\<rparr>"
    by (simp add: awaiting_def split: if_splits)
  have "stage_ok (handleSearch_script r (ui a))"
    using s none by (simp add: handleSearch_script_def stage_ok_def split: sum.splits)
  then show ?thesis by (simp add: a' orderly_def upd)
qed

lemma orderly_AssetsSettled:
  assumes "orderly a" and "fire (AssetsSettled i ra ri) a = Some a'"
  shows "orderly a'"
proof -
  from assms(2) have i: "i < length (tasks a)" "tasks a ! i = AwaitAssets"
    by (simp_all add: awaiting_def split: if_splits)
  from assms(1) have s: "stage_ok (ui a)" and f: "flight_ok (in_flight (tasks a)) (ui a)"
    by (simp_all add: orderly_def)
  have m: "AwaitAssets \<in> set (in_flight (tasks a))"
    using in_flight_member [of i "tasks a"] i by simp
  note b = flight_ok_busy [OF f m]
  have upd: "in_flight ((tasks a)[i := Settled]) = []"
    using in_flight_update [OF b(1) i(1), of Settled] i(2) by simp
  from assms(2) i have a': "a' = a\<lparr>ui := handleGenerateAssets_settled ra ri (ui a),
        tasks := (tasks a)[i := Settled]\<rparr>"
    by (simp add: awaiting_def split: if_splits)
  have "stage_ok (handleGenerateAssets_settled ra ri (ui a))"
    using s by (simp add: handleGenerateAssets_settled_def stage_ok_def promise_all_def
                  split: sum.splits prod.splits)
  then show ?thesis by (simp add: a' orderly_def upd)
qed

lemma orderly_fire:
  assumes "orderly a" and "fire e a = Some a'" and "e = PressEnter \<longrightarrow> \<not> loading (ui a)"
  shows "orderly a'"
proof (cases e)
  case (SetQuery q)
  with assms(2) have "fire (SetQuery q) a = Some a'" by simp
  then show ?thesis by (rule orderly_SetQuery [OF assms(1)])
next
  case (SetLanguage l)
  with assms(2) have "fire (SetLanguage l) a = Some a'" by simp
  then show ?thesis by (rule orderly_SetLanguage [OF assms(1)])
next
  case ClickSearch
  with assms(2) have "fire ClickSearch a = Some a'" by simp
  then show ?thesis by (rule orderly_ClickSearch [OF assms(1)])
next
  case PressEnter
  with assms(2,3) have "fire PressEnter a = Some a'" "\<not> loading (ui a)" by simp_all
  then show ?thesis by (rule orderly_PressEnter [OF assms(1)])
next
  case (LookupSettled i r)
  with assms(2) have "fire (LookupSettled i r) a = Some a'" by simp
  then show ?thesis by (rule orderly_LookupSettled [OF assms(1)])
next
  case (ScriptSettled i r)
  with assms(2) have "fire (ScriptSettled i r) a = Some a'" by simp
  then show ?thesis by (rule orderly_ScriptSettled [OF assms(1)])
next
  case ClickGenerateAssets
  with assms(2) have "fire ClickGenerateAssets a = Some a'" by simp
  then show ?thesis by (rule orderly_ClickGenerateAssets [OF assms(1)])
next
  case (AssetsSettled i ra ri)
  with assms(2) have "fire (AssetsSettled i ra ri) a = Some a'" by simp
  then show ?thesis by (rule orderly_AssetsSettled [OF assms(1)])
next
  case ClickStartOver
  with assms(2) have "fire ClickStartOver a = Some a'" by simp
  then show ?thesis by (rule orderly_ClickStartOver [OF assms(1)])
next
  case ClickDiscard
  with assms(2) have "fire ClickDiscard a = Some a'" by simp
  then show ?thesis by (rule orderly_ClickDiscard [OF assms(1)])
next
  case (Message t)
  with assms(2) have "fire (Message t) a = Some a'" by simp
  then show ?thesis by (rule orderly_Message [OF assms(1)])
next
  case Unmount
  with assms(2) have "fire Unmount a = Some a'" by simp
  then show ?thesis by (rule orderly_Unmount [OF assms(1)])
qed

lemma orderly_run_gated:
  "orderly a \<Longrightarrow> run_gated es a = Some a' \<Longrightarrow> orderly a'"
proof (induction es arbitrary: a)
  case Nil
  then show ?case by simp
next
  case (Cons e es)
  then have gate: "e = PressEnter \<longrightarrow> \<not> loading (ui a)"
    by (auto split: if_splits)
  from Cons.prems obtain b where b: "fire e a = Some b" "run_gated es b = Some a'"
    by (auto split: if_splits option.splits)
  from Cons.IH [OF orderly_fire [OF Cons.prems(1) b(1) gate] b(2)]
  show ?case .
qed

lemma orderly_fresh_app: "orderly fresh_app"
  by (simp add: orderly_def stage_ok_def in_flight_def)

lemma gated_runs_keep_stage_invariant:
  assumes "run_gated es fresh_app = Some a"
  shows "\<not> (script (ui a) \<noteq> None \<and> step (ui a) = step_search)
       \<and> \<not> (audioUrl (ui a) \<noteq> None \<and> imageUrl (ui a) \<noteq> None
            \<and> step (ui a) \<noteq> step_preview \<and> step (ui a) \<noteq> step_upload)"
  using orderly_run_gated [OF orderly_fresh_app assms]
  by (cases "step (ui a)") (auto simp: orderly_def stage_ok_def)

end
